theory Spec2Isabelle
  imports Complex_Main "HOL-Library.Word"
begin

section \<open>JavaScript values used by the payment page\<close>

text \<open>
  The page \<^verbatim>\<open>frontend/ai_pay/page.tsx\<close> is TypeScript. Its strings are sequences of
  UTF-16 code units, its numbers are IEEE doubles. A string is modelled as a list of
  16-bit words. A number is \<open>NaN\<close>, an infinity or a finite value; the finite values are
  embedded in the reals, where the comparisons, the truncation and the integrality
  test that the page applies to them are exact.
\<close>

type_synonym jsstring = "16 word list"

definition str :: "string \<Rightarrow> jsstring" where
  "str s = map of_char s"

datatype number = NaN | NegInf | Fin real | PosInf

text \<open>\<^verbatim>\<open>a <= b\<close> on numbers: false as soon as one side is \<open>NaN\<close>.\<close>

fun num_le :: "number \<Rightarrow> number \<Rightarrow> bool" where
  "num_le NaN _ = False"
| "num_le _ NaN = False"
| "num_le NegInf _ = True"
| "num_le _ PosInf = True"
| "num_le (Fin a) (Fin b) = (a \<le> b)"
| "num_le (Fin a) NegInf = False"
| "num_le PosInf (Fin b) = False"
| "num_le PosInf NegInf = False"

definition isNaN :: "number \<Rightarrow> bool" where
  "isNaN x = (x = NaN)"

text \<open>An optional, nullable property such as \<^verbatim>\<open>decimals?: number | null\<close>.\<close>

datatype 'a optional = Undefined | Null | Value 'a

text \<open>
  Every \<^verbatim>\<open>throw\<close> of the page and of the built-ins it calls is a value of \<open>error\<close>.
  The page throws \<^verbatim>\<open>Error\<close> objects that differ in their message only; one constructor
  stands for one message, and its arguments are the values interpolated into it.
  \<^item> \<open>RangeError\<close>, \<open>SyntaxError\<close>, \<open>TypeError\<close>: thrown by \<^verbatim>\<open>String.prototype.repeat\<close>,
    \<^verbatim>\<open>BigInt\<close> and a property read on \<^verbatim>\<open>undefined\<close>;
  \<^item> \<open>InvalidCharacterError\<close>: thrown by \<^verbatim>\<open>btoa\<close>;
  \<^item> \<open>BadPrivateKey\<close>: line 53; \<open>InvalidPublicKey\<close>: the \<^verbatim>\<open>PublicKey\<close> constructor;
  \<^item> \<open>SenderAccountMissing\<close>: line 414; \<open>MintMismatch Direct\<close>: line 425;
    \<open>OwnerProgramMismatch\<close>: line 436; \<open>MintMismatch Associated\<close>: line 442;
  \<^item> \<open>InsufficientBalance cur need\<close>: line 453, a message built from the balance's
    \<^verbatim>\<open>uiAmountString\<close> and the requested amount; \<open>InsufficientFee\<close>: line 460, a fixed
    message;
  \<^item> \<open>Thrown m\<close>: anything a library, ledger or gateway call throws, \<open>m\<close> being what
    \<^verbatim>\<open>getErrorMessage\<close> makes of it; \<open>TransferFailed\<close>: the fallback message of line 502;
  \<^item> \<open>MissingParams\<close>: line 509; \<open>MissingPaymentConfig\<close>: line 514;
    \<open>ConfirmRejected m\<close> and \<open>ConfirmFailedCode c\<close>: the two messages of line 617.
\<close>

datatype destination_kind = Direct | Associated

datatype error =
    RangeError
  | SyntaxError
  | TypeError
  | InvalidCharacterError
  | BadPrivateKey
  | InvalidPublicKey
  | SenderAccountMissing
  | MintMismatch destination_kind
  | OwnerProgramMismatch
  | InsufficientBalance jsstring jsstring
  | InsufficientFee
  | Thrown jsstring
  | TransferFailed
  | MissingParams
  | MissingPaymentConfig
  | ConfirmRejected jsstring
  | ConfirmFailedCode "number option"

subsection \<open>String and BigInt built-ins\<close>

text \<open>\<^verbatim>\<open>s.split(sep)\<close> for a one-character separator: never the empty array.\<close>

fun split_on :: "16 word \<Rightarrow> jsstring \<Rightarrow> jsstring list" where
  "split_on sep [] = [] # []"
| "split_on sep (c # cs) =
     (if c = sep then [] # split_on sep cs
      else (case split_on sep cs of [] \<Rightarrow> [c] # [] | p # ps \<Rightarrow> (c # p) # ps))"

definition isDigit :: "16 word \<Rightarrow> bool" where
  "isDigit c = (0x30 \<le> c \<and> c \<le> 0x39)"

text \<open>\<^verbatim>\<open>s.replace(/\D/g, '')\<close>: \<^verbatim>\<open>\D\<close> is every code unit outside \<^verbatim>\<open>0\<close>..\<^verbatim>\<open>9\<close>.\<close>

definition strip_non_digits :: "jsstring \<Rightarrow> jsstring" where
  "strip_non_digits s = filter isDigit s"

datatype int_or_inf = MinusInfinity | Integer int | PlusInfinity

text \<open>The abstract operation \<^verbatim>\<open>ToIntegerOrInfinity\<close>: \<open>NaN\<close> is 0, a finite value is truncated.\<close>

fun ToIntegerOrInfinity :: "number \<Rightarrow> int_or_inf" where
  "ToIntegerOrInfinity NaN = Integer 0"
| "ToIntegerOrInfinity NegInf = MinusInfinity"
| "ToIntegerOrInfinity PosInf = PlusInfinity"
| "ToIntegerOrInfinity (Fin r) = Integer (if 0 \<le> r then \<lfloor>r\<rfloor> else \<lceil>r\<rceil>)"

text \<open>
  The language sets no bound on the length of a string or on the size of a bigint, but
  every engine has one and throws a \<^verbatim>\<open>RangeError\<close> where a result would pass it
  (\<^verbatim>\<open>Invalid string length\<close>, \<^verbatim>\<open>Maximum BigInt size exceeded\<close>). The bounds taken
  here are those of V8, the engine of Chrome and of Node.js: a string holds at most
  \<^verbatim>\<open>2^29 - 24\<close> code units; a bigint holds at most \<^verbatim>\<open>2^30\<close> bits, which the parser of
  \<^verbatim>\<open>BigInt(s)\<close> counts on the characters that follow the leading zeros: \<^verbatim>\<open>2^24\<close> words
  of 19 characters each for a decimal literal, and 4, 3 or 1 bits for each character of
  a hexadecimal, octal or binary one. Other engines have other bounds, some of them
  lower, so the properties below that depend on a bound are stated for inputs far
  smaller than any of them.
\<close>

definition String_max_length :: nat where
  "String_max_length = 536870888"

definition BigInt_too_big :: "nat \<Rightarrow> jsstring \<Rightarrow> bool" where
  "BigInt_too_big radix s =
     (let n = length (dropWhile (\<lambda>c. c = 0x30) s)
      in if radix = 10 then 318767104 < n
         else 1073741824 < n * (if radix = 16 then 4 else if radix = 8 then 3 else 1))"

text \<open>\<^verbatim>\<open>a + b\<close> on strings, and a template literal of two strings.\<close>

definition string_concat :: "jsstring \<Rightarrow> jsstring \<Rightarrow> error + jsstring" where
  "string_concat a b =
     (if String_max_length < length a + length b then Inl RangeError else Inr (a @ b))"

text \<open>
  \<^verbatim>\<open>s.repeat(count)\<close>: a \<^verbatim>\<open>RangeError\<close> for a negative or infinite count, and for a
  count that makes the result longer than a string can be.
\<close>

definition repeat :: "jsstring \<Rightarrow> number \<Rightarrow> error + jsstring" where
  "repeat s count =
     (case ToIntegerOrInfinity count of
        MinusInfinity \<Rightarrow> Inl RangeError
      | PlusInfinity \<Rightarrow> Inl RangeError
      | Integer n \<Rightarrow>
          if n < 0 then Inl RangeError
          else if String_max_length < nat n * length s then Inl RangeError
          else Inr (concat (replicate (nat n) s)))"

text \<open>\<^verbatim>\<open>s.slice(0, end)\<close>: a negative end counts from the end of the string.\<close>

definition slice0 :: "jsstring \<Rightarrow> number \<Rightarrow> jsstring" where
  "slice0 s end =
     (case ToIntegerOrInfinity end of
        MinusInfinity \<Rightarrow> []
      | PlusInfinity \<Rightarrow> s
      | Integer n \<Rightarrow> if n < 0 then take (nat (int (length s) + n)) s else take (nat n) s)"

text \<open>
  \<^verbatim>\<open>BigInt(s)\<close> on a string: white space is trimmed, the empty string is \<open>0n\<close>, and the rest
  must be a decimal literal with an optional sign or an unsigned literal with one of the
  prefixes \<^verbatim>\<open>0x\<close>, \<^verbatim>\<open>0o\<close>, \<^verbatim>\<open>0b\<close>; anything else is a \<^verbatim>\<open>SyntaxError\<close>, and a literal
  too long for a bigint is a \<^verbatim>\<open>RangeError\<close>.
\<close>

definition isStrWhiteSpace :: "16 word \<Rightarrow> bool" where
  "isStrWhiteSpace c =
     (c \<in> set [0x9, 0xA, 0xB, 0xC, 0xD, 0x20, 0xA0, 0x1680, 0x2028, 0x2029, 0x202F,
               0x205F, 0x3000, 0xFEFF]
      \<or> (0x2000 \<le> c \<and> c \<le> 0x200A))"

definition trimString :: "jsstring \<Rightarrow> jsstring" where
  "trimString s = rev (dropWhile isStrWhiteSpace (rev (dropWhile isStrWhiteSpace s)))"

definition digitValue :: "16 word \<Rightarrow> nat option" where
  "digitValue c =
     (if 0x30 \<le> c \<and> c \<le> 0x39 then Some (unat c - 48)
      else if 0x61 \<le> c \<and> c \<le> 0x66 then Some (unat c - 87)
      else if 0x41 \<le> c \<and> c \<le> 0x46 then Some (unat c - 55)
      else None)"

fun parseDigits :: "nat \<Rightarrow> jsstring \<Rightarrow> nat \<Rightarrow> nat option" where
  "parseDigits radix [] acc = Some acc"
| "parseDigits radix (c # cs) acc =
     (case digitValue c of
        None \<Rightarrow> None
      | Some d \<Rightarrow> if d < radix then parseDigits radix cs (acc * radix + d) else None)"

definition parseInteger :: "nat \<Rightarrow> jsstring \<Rightarrow> error + int" where
  "parseInteger radix s =
     (if s = [] then Inl SyntaxError
      else (case parseDigits radix s 0 of
              None \<Rightarrow> Inl SyntaxError
            | Some n \<Rightarrow> if BigInt_too_big radix s then Inl RangeError else Inr (int n)))"

fun strIntegerLiteral :: "jsstring \<Rightarrow> error + int" where
  "strIntegerLiteral (a # b # ds) =
     (if a = 0x30 \<and> (b = 0x78 \<or> b = 0x58) then parseInteger 16 ds
      else if a = 0x30 \<and> (b = 0x6F \<or> b = 0x4F) then parseInteger 8 ds
      else if a = 0x30 \<and> (b = 0x62 \<or> b = 0x42) then parseInteger 2 ds
      else if a = 0x2B then parseInteger 10 (b # ds)
      else if a = 0x2D then map_sum id uminus (parseInteger 10 (b # ds))
      else parseInteger 10 (a # b # ds))"
| "strIntegerLiteral ds = parseInteger 10 ds"

definition BigInt_of_string :: "jsstring \<Rightarrow> error + int" where
  "BigInt_of_string s =
     (let t = trimString s in if t = [] then Inr 0 else strIntegerLiteral t)"

text \<open>\<^verbatim>\<open>BigInt(x)\<close> on a number: a \<^verbatim>\<open>RangeError\<close> unless \<open>x\<close> is an integer.\<close>

fun BigInt_of_number :: "number \<Rightarrow> error + int" where
  "BigInt_of_number (Fin r) = (if r \<in> \<int> then Inr \<lfloor>r\<rfloor> else Inl RangeError)"
| "BigInt_of_number _ = Inl RangeError"

text \<open>\<^verbatim>\<open>n.toString()\<close> on a bigint: the decimal digits, most significant first.\<close>

fun digits_of_nat :: "nat \<Rightarrow> jsstring" where
  "digits_of_nat n =
     (if n < 10 then [of_nat (48 + n)] else digits_of_nat (n div 10) @ [of_nat (48 + n mod 10)])"

definition bigint_toString :: "int \<Rightarrow> jsstring" where
  "bigint_toString n = (if n < 0 then 0x2D # digits_of_nat (nat (- n)) else digits_of_nat (nat n))"

section \<open>Amount codec\<close>

text \<open>
  Lines 23 to 30:
  \<^verbatim>\<open>
  const amountToSmallestUnit = (value: string, decimals: number): bigint => {
    const [integerPart, fractionalPart = ''] = value.split('.')
    const cleanInteger = integerPart.replace(/\D/g, '') || '0'
    const cleanFraction = fractionalPart.replace(/\D/g, '')
    const paddedFraction = (cleanFraction + '0'.repeat(decimals)).slice(0, decimals)
    const combined = `${cleanInteger}${paddedFraction}`
    return BigInt(combined || '0')
  }\<close>
\<close>

definition or_else :: "jsstring \<Rightarrow> jsstring \<Rightarrow> jsstring" where
  \<comment> \<open>\<^verbatim>\<open>a || b\<close> on strings: the empty string is the only falsy one\<close>
  "or_else a b = (if a = [] then b else a)"

definition amountToSmallestUnit :: "jsstring \<Rightarrow> number \<Rightarrow> error + int" where
  "amountToSmallestUnit value decimals =
     (case split_on 0x2E value of
        [] \<Rightarrow> Inl TypeError
      | integerPart # rest \<Rightarrow>
          let fractionalPart = (case rest of [] \<Rightarrow> [] | f # _ \<Rightarrow> f);
              cleanInteger = or_else (strip_non_digits integerPart) (str ''0'');
              cleanFraction = strip_non_digits fractionalPart
          in (case repeat (str ''0'') decimals of
                Inl e \<Rightarrow> Inl e
              | Inr zeros \<Rightarrow>
                  (case string_concat cleanFraction zeros of
                     Inl e \<Rightarrow> Inl e
                   | Inr padded \<Rightarrow>
                       let paddedFraction = slice0 padded decimals
                       in (case string_concat cleanInteger paddedFraction of
                             Inl e \<Rightarrow> Inl e
                           | Inr combined \<Rightarrow> BigInt_of_string (or_else combined (str ''0''))))))"

text \<open>
  Lines 57 to 65. The second parameter has the default \<^verbatim>\<open>SOLANA_DECIMALS\<close>, used when the
  caller passes nothing (\<open>None\<close>).
  \<^verbatim>\<open>
  const resolveDecimals = (decimals?: number | null, fallback: number = SOLANA_DECIMALS): number => {
    if (decimals === undefined || decimals === null) { return fallback }
    if (Number.isNaN(decimals) || decimals <= 0) { return fallback }
    return decimals
  }\<close>
\<close>

definition SOLANA_DECIMALS :: number where
  "SOLANA_DECIMALS = Fin 6"

definition fallback_or_default :: "number option \<Rightarrow> number" where
  "fallback_or_default fallback_arg =
     (case fallback_arg of None \<Rightarrow> SOLANA_DECIMALS | Some f \<Rightarrow> f)"

definition resolveDecimals :: "number optional \<Rightarrow> number option \<Rightarrow> number" where
  "resolveDecimals decimals fallback_arg =
     (let fallback = fallback_or_default fallback_arg
      in case decimals of
           Undefined \<Rightarrow> fallback
         | Null \<Rightarrow> fallback
         | Value d \<Rightarrow> if isNaN d \<or> num_le d (Fin 0) then fallback else d)"

text \<open>
  Two notions for stating what the codec returns: the number a string of digits spells,
  and the decimal strings of the design document ("a decimal string, optionally with a
  fractional part"): digits, at least one, optionally followed by a dot and digits.
\<close>

definition decimal_value :: "jsstring \<Rightarrow> nat" where
  "decimal_value ds = foldl (\<lambda>acc c. acc * 10 + (unat c - 48)) 0 ds"





section \<open>The ledger and the other collaborators\<close>

text \<open>
  A public key is identified with its base58 text, which the \<^verbatim>\<open>PublicKey\<close> constructor
  accepts or rejects. \<^verbatim>\<open>TOKEN_PROGRAM_ID\<close> is the constant of \<^verbatim>\<open>@solana/spl-token\<close>.
\<close>

type_synonym pubkey = jsstring

definition SOLANA_USDC_MINT :: jsstring where
  "SOLANA_USDC_MINT = str ''UCSsmd2A8Ub8J2mE68pXKSSJLJmMTJyPfuT4h7YwpQA''"

definition TOKEN_PROGRAM_ID :: pubkey where
  "TOKEN_PROGRAM_ID = str ''TokenkegQfeZyiNwAJbNbGKPFXCWuBvf9Ss623VQ5DA''"

record account_info =
  owner :: pubkey

record token_amount =
  amount :: jsstring
  uiAmountString :: "jsstring option"

datatype instruction =
    CreateAssociatedTokenAccount pubkey pubkey pubkey pubkey
  | Transfer pubkey pubkey pubkey int

record transaction =
  instructions :: "instruction list"
  recentBlockhash :: jsstring
  lastValidBlockHeight :: number
  feePayer :: pubkey

record response =
  code :: "number option"
  status :: "number option"
  message :: "jsstring option"
  data_code :: "number option"
  data_message :: "jsstring option"

text \<open>
  A call into a library, the ledger or the gateway either throws, \<open>Inl m\<close> with \<open>m\<close> the text
  that \<^verbatim>\<open>getErrorMessage\<close> (lines 32 to 44) extracts from what was thrown, or returns.
\<close>

type_synonym 'a outcome = "jsstring + 'a"

text \<open>
  Everything the page reads from outside is a field of \<open>world\<close>:
  \<^item> \<open>Number_of_string\<close> and \<open>toUpperCase\<close>: the built-ins \<^verbatim>\<open>Number(s)\<close> and
    \<^verbatim>\<open>s.toUpperCase()\<close>;
  \<^item> \<open>secretKey\<close>: the key pair that \<^verbatim>\<open>bs58.decode\<close> and \<^verbatim>\<open>Keypair.fromSecretKey\<close> make of
    the configured \<^verbatim>\<open>SOLANA_PRIVATE_KEY\<close>, by its public key, \<open>None\<close> when they throw
    (the repository leaves the key empty, to be set before use; with the empty key they
    throw);
  \<^item> \<open>validPublicKey\<close>: whether \<^verbatim>\<open>new PublicKey(s)\<close> accepts the text;
  \<^item> \<open>getAssociatedTokenAddress mint owner allowOwnerOffCurve\<close>: the derivation of
    \<^verbatim>\<open>@solana/spl-token\<close>;
  \<^item> \<open>getAccountInfo\<close>, \<open>getParsedMint\<close>, \<open>getTokenAccountBalance\<close>, \<open>getBalance\<close>,
    \<open>getLatestBlockhash\<close>, \<open>sendTransaction\<close>, \<open>confirmTransaction\<close>: the calls on the
    \<^verbatim>\<open>Connection\<close>; \<open>getParsedMint k\<close> is what the page reads from
    \<^verbatim>\<open>getParsedAccountInfo(k)\<close>, namely \<^verbatim>\<open>value?.data?.parsed?.info?.mint\<close>, \<open>None\<close> when
    that is \<^verbatim>\<open>undefined\<close>;
  \<^item> \<open>resourcePaymentConfirm resourceid header\<close>: the gateway call.
\<close>

record world =
  Number_of_string :: "jsstring \<Rightarrow> number"
  toUpperCase :: "jsstring \<Rightarrow> jsstring"
  secretKey :: "pubkey option"
  validPublicKey :: "jsstring \<Rightarrow> bool"
  getAssociatedTokenAddress :: "pubkey \<Rightarrow> pubkey \<Rightarrow> bool \<Rightarrow> pubkey outcome"
  getAccountInfo :: "pubkey \<Rightarrow> account_info option outcome"
  getParsedMint :: "pubkey \<Rightarrow> jsstring option outcome"
  getTokenAccountBalance :: "pubkey \<Rightarrow> token_amount option outcome"
  getBalance :: "pubkey \<Rightarrow> number outcome"
  getLatestBlockhash :: "(jsstring \<times> number) outcome"
  sendTransaction :: "transaction \<Rightarrow> jsstring outcome"
  confirmTransaction :: "jsstring \<Rightarrow> jsstring \<Rightarrow> number \<Rightarrow> unit outcome"
  resourcePaymentConfirm :: "jsstring \<Rightarrow> jsstring \<Rightarrow> response outcome"

text \<open>
  What a run does to the outside is recorded as a list of events, in order: one event for
  each call that is awaited, and one for each timer that is set.
\<close>

datatype timer = FetchWalletInfo | ReportSuccess

datatype event =
    GetAssociatedTokenAddress pubkey pubkey bool
  | GetAccountInfo pubkey
  | GetParsedAccountInfo pubkey
  | GetTokenAccountBalance pubkey
  | GetBalance pubkey
  | GetLatestBlockhash
  | SendTransaction transaction
  | ConfirmTransaction jsstring
  | ResourcePaymentConfirm jsstring jsstring
  | SetTimeout timer nat

text \<open>
  An asynchronous computation returns a value or throws, and leaves its events. \<open>bind\<close>
  is \<^verbatim>\<open>await\<close> followed by the rest of the function: the rest does not run after a throw.
\<close>

type_synonym 'a io = "(error + 'a) \<times> event list"

definition ret :: "'a \<Rightarrow> 'a io" where
  "ret x = (Inr x, [])"

definition throw :: "error \<Rightarrow> 'a io" where
  "throw e = (Inl e, [])"

definition lift :: "error + 'a \<Rightarrow> 'a io" where
  "lift r = (r, [])"

definition call :: "event \<Rightarrow> 'a outcome \<Rightarrow> 'a io" where
  "call ev r = (case r of Inl m \<Rightarrow> (Inl (Thrown m), [ev]) | Inr x \<Rightarrow> (Inr x, [ev]))"

definition bind :: "'a io \<Rightarrow> ('a \<Rightarrow> 'b io) \<Rightarrow> 'b io" where
  "bind m f =
     (case m of
        (Inl e, evs) \<Rightarrow> (Inl e, evs)
      | (Inr x, evs) \<Rightarrow> (case f x of (r, evs') \<Rightarrow> (r, evs @ evs')))"

section \<open>Token transfer\<close>

text \<open>Lines 46 to 55 and the \<^verbatim>\<open>PublicKey\<close> constructor.\<close>

definition getSolanaKeypair :: "world \<Rightarrow> error + pubkey" where
  "getSolanaKeypair w = (case secretKey w of None \<Rightarrow> Inl BadPrivateKey | Some k \<Rightarrow> Inr k)"

definition PublicKey :: "world \<Rightarrow> jsstring \<Rightarrow> error + pubkey" where
  "PublicKey w s = (if validPublicKey w s then Inr s else Inl InvalidPublicKey)"

text \<open>
  \<^verbatim>\<open>accountMint && accountMint !== SOLANA_USDC_MINT\<close>: a missing or empty mint is falsy.
\<close>

definition mint_differs :: "jsstring option \<Rightarrow> bool" where
  "mint_differs accountMint =
     (case accountMint of None \<Rightarrow> False | Some m \<Rightarrow> m \<noteq> [] \<and> m \<noteq> SOLANA_USDC_MINT)"

text \<open>
  Lines 417 to 445 of \<^verbatim>\<open>sendSolanaTransfer\<close>: the destination token account and the
  instructions that must precede the transfer.
\<close>

definition resolveDestination ::
  "world \<Rightarrow> pubkey \<Rightarrow> pubkey \<Rightarrow> pubkey \<Rightarrow> (pubkey \<times> instruction list) io" where
  "resolveDestination w payer recipient mint =
     bind (call (GetAccountInfo recipient) (getAccountInfo w recipient)) (\<lambda>directAccountInfo.
       if (case directAccountInfo of None \<Rightarrow> False | Some info \<Rightarrow> owner info = TOKEN_PROGRAM_ID)
       then
         bind (call (GetParsedAccountInfo recipient) (getParsedMint w recipient)) (\<lambda>accountMint.
           if mint_differs accountMint then throw (MintMismatch Direct)
           else ret (recipient, []))
       else
         bind (call (GetAssociatedTokenAddress mint recipient True)
                 (getAssociatedTokenAddress w mint recipient True)) (\<lambda>toTokenAccount.
         bind (call (GetAccountInfo toTokenAccount) (getAccountInfo w toTokenAccount)) (\<lambda>ataInfo.
           case ataInfo of
             None \<Rightarrow>
               ret (toTokenAccount,
                    [CreateAssociatedTokenAccount payer toTokenAccount recipient mint])
           | Some info \<Rightarrow>
               if owner info \<noteq> TOKEN_PROGRAM_ID then throw OwnerProgramMismatch
               else
                 bind (call (GetParsedAccountInfo toTokenAccount) (getParsedMint w toTokenAccount))
                   (\<lambda>ataMint.
                     if mint_differs ataMint then throw (MintMismatch Associated)
                     else ret (toTokenAccount, [])))))"

text \<open>
  Lines 398 to 447: the payer, the sender's token account, the destination and the amount
  in minor units.
\<close>

definition prepareTransfer ::
  "world \<Rightarrow> jsstring \<Rightarrow> jsstring \<Rightarrow> number
   \<Rightarrow> (pubkey \<times> pubkey \<times> pubkey \<times> instruction list \<times> int) io" where
  "prepareTransfer w toAddress amount' decimals' =
     bind (lift (getSolanaKeypair w)) (\<lambda>payer.
     bind (lift (PublicKey w toAddress)) (\<lambda>recipient.
     bind (lift (PublicKey w SOLANA_USDC_MINT)) (\<lambda>mint.
     bind (call (GetAssociatedTokenAddress mint payer False)
             (getAssociatedTokenAddress w mint payer False)) (\<lambda>fromTokenAccount.
     bind (call (GetAccountInfo fromTokenAccount) (getAccountInfo w fromTokenAccount))
       (\<lambda>fromInfo.
       if fromInfo = None then throw SenderAccountMissing
       else
         bind (resolveDestination w payer recipient mint) (\<lambda>(toTokenAccount, instrs).
         bind (lift (amountToSmallestUnit amount' decimals')) (\<lambda>amountInSmallestUnit.
           ret (payer, fromTokenAccount, toTokenAccount, instrs, amountInSmallestUnit))))))))"

text \<open>Lines 449 to 461: the two balance checks. An absent string reads as falsy.\<close>

definition string_of :: "jsstring option \<Rightarrow> jsstring" where
  "string_of x = (case x of None \<Rightarrow> [] | Some t \<Rightarrow> t)"

definition checkBalances :: "world \<Rightarrow> pubkey \<Rightarrow> pubkey \<Rightarrow> jsstring \<Rightarrow> int \<Rightarrow> unit io" where
  "checkBalances w payer fromTokenAccount amount' amountInSmallestUnit =
     bind (call (GetTokenAccountBalance fromTokenAccount)
             (getTokenAccountBalance w fromTokenAccount)) (\<lambda>payerUsdcBalance.
     bind (lift (BigInt_of_string
             (or_else (case payerUsdcBalance of None \<Rightarrow> [] | Some v \<Rightarrow> amount v) (str ''0''))))
       (\<lambda>payerUsdcLamports.
       if payerUsdcLamports < amountInSmallestUnit
       then throw (InsufficientBalance
              (or_else (case payerUsdcBalance of None \<Rightarrow> []
                        | Some v \<Rightarrow> string_of (uiAmountString v))
                 (str ''0''))
              amount')
       else
         bind (call (GetBalance payer) (getBalance w payer)) (\<lambda>lamports.
         bind (lift (BigInt_of_number lamports)) (\<lambda>lamports'.
           if lamports' < 10000000 then throw InsufficientFee else ret ()))))"

text \<open>Lines 463 to 498: the transaction is built, sent and confirmed.\<close>

definition submitTransfer ::
  "world \<Rightarrow> pubkey \<Rightarrow> pubkey \<Rightarrow> pubkey \<Rightarrow> instruction list \<Rightarrow> int \<Rightarrow> jsstring io" where
  "submitTransfer w payer fromTokenAccount toTokenAccount instrs amountInSmallestUnit =
     bind (call GetLatestBlockhash (getLatestBlockhash w)) (\<lambda>(blockhash, height).
       let tx = \<lparr> instructions =
                     instrs @ [Transfer fromTokenAccount toTokenAccount payer amountInSmallestUnit],
                  recentBlockhash = blockhash,
                  lastValidBlockHeight = height,
                  feePayer = payer \<rparr>
       in
         bind (call (SendTransaction tx) (sendTransaction w tx)) (\<lambda>signature.
         bind (call (ConfirmTransaction signature)
                 (confirmTransaction w signature blockhash height)) (\<lambda>_.
         bind (Inr (), [SetTimeout FetchWalletInfo 2000]) (\<lambda>_.
           ret signature))))"

text \<open>
  The \<^verbatim>\<open>catch\<close> of lines 499 to 503 throws a new \<^verbatim>\<open>Error\<close> with the message of the one
  caught, or with the fallback message when that is empty.
\<close>

definition rethrow :: "'a io \<Rightarrow> 'a io" where
  "rethrow m =
     (case m of
        (Inl (Thrown msg), evs) \<Rightarrow> (Inl (if msg = [] then TransferFailed else Thrown msg), evs)
      | _ \<Rightarrow> m)"

definition sendSolanaTransfer :: "world \<Rightarrow> jsstring \<Rightarrow> jsstring \<Rightarrow> number \<Rightarrow> jsstring io" where
  "sendSolanaTransfer w toAddress amount' decimals' =
     rethrow
      (bind (prepareTransfer w toAddress amount' decimals')
         (\<lambda>(payer, fromTokenAccount, toTokenAccount, instrs, amountInSmallestUnit).
       bind (checkBalances w payer fromTokenAccount amount' amountInSmallestUnit) (\<lambda>_.
         submitTransfer w payer fromTokenAccount toTokenAccount instrs amountInSmallestUnit)))"

section \<open>Payment proof\<close>

text \<open>
  \<^verbatim>\<open>JSON.stringify\<close> on the values the page serialises: objects with string keys, in the
  order they were written, strings, and integers (printed in decimal). A string is quoted
  as \<^verbatim>\<open>QuoteJSONString\<close> does: the quote, the backslash and the control characters are
  escaped, a surrogate that is not part of a pair becomes a \<^verbatim>\<open>\u\<close> escape, and every
  other code unit stays as it is.
\<close>

datatype json = JNumber int | JString jsstring | JObject "(jsstring \<times> json) list"

definition isHighSurrogate :: "16 word \<Rightarrow> bool" where
  "isHighSurrogate c = (0xD800 \<le> c \<and> c \<le> 0xDBFF)"

definition isLowSurrogate :: "16 word \<Rightarrow> bool" where
  "isLowSurrogate c = (0xDC00 \<le> c \<and> c \<le> 0xDFFF)"

definition hexDigit :: "nat \<Rightarrow> 16 word" where
  "hexDigit n = (if n < 10 then of_nat (48 + n) else of_nat (87 + n))"

definition unicode_escape :: "16 word \<Rightarrow> jsstring" where
  "unicode_escape c =
     [0x5C, 0x75, hexDigit (unat c div 4096), hexDigit (unat c div 256 mod 16),
      hexDigit (unat c div 16 mod 16), hexDigit (unat c mod 16)]"

definition escape_unit :: "16 word \<Rightarrow> jsstring" where
  "escape_unit c =
     (if c = 0x08 then [0x5C, 0x62]
      else if c = 0x09 then [0x5C, 0x74]
      else if c = 0x0A then [0x5C, 0x6E]
      else if c = 0x0C then [0x5C, 0x66]
      else if c = 0x0D then [0x5C, 0x72]
      else if c = 0x22 then [0x5C, 0x22]
      else if c = 0x5C then [0x5C, 0x5C]
      else if c < 0x20 \<or> isHighSurrogate c \<or> isLowSurrogate c then unicode_escape c
      else [c])"

fun escape_units :: "jsstring \<Rightarrow> jsstring" where
  "escape_units [] = []"
| "escape_units [c] = escape_unit c"
| "escape_units (c # d # ds) =
     (if isHighSurrogate c \<and> isLowSurrogate d then c # d # escape_units ds
      else escape_unit c @ escape_units (d # ds))"

definition QuoteJSONString :: "jsstring \<Rightarrow> jsstring" where
  "QuoteJSONString s = [0x22] @ escape_units s @ [0x22]"

fun join_members :: "jsstring list \<Rightarrow> jsstring" where
  "join_members [] = []"
| "join_members [m] = m"
| "join_members (m # ms) = m @ [0x2C] @ join_members ms"

fun JSON_stringify :: "json \<Rightarrow> jsstring" where
  "JSON_stringify (JNumber n) = bigint_toString n"
| "JSON_stringify (JString s) = QuoteJSONString s"
| "JSON_stringify (JObject ms) =
     [0x7B] @ join_members (map (\<lambda>(k, v). QuoteJSONString k @ [0x3A] @ JSON_stringify v) ms)
     @ [0x7D]"

text \<open>
  \<^verbatim>\<open>btoa\<close> takes every code unit of its argument for one byte and throws when one is
  above 255; the bytes are then written in base64.
\<close>

definition base64_digit :: "nat \<Rightarrow> 16 word" where
  "base64_digit n =
     str ''ABCDEFGHIJKLMNOPQRSTUVWXYZabcdefghijklmnopqrstuvwxyz0123456789+/'' ! n"

fun base64_encode :: "8 word list \<Rightarrow> jsstring" where
  "base64_encode [] = []"
| "base64_encode [a] =
     [base64_digit (unat a div 4), base64_digit (unat a mod 4 * 16), 0x3D, 0x3D]"
| "base64_encode [a, b] =
     [base64_digit (unat a div 4), base64_digit (unat a mod 4 * 16 + unat b div 16),
      base64_digit (unat b mod 16 * 4), 0x3D]"
| "base64_encode (a # b # c # bs) =
     [base64_digit (unat a div 4), base64_digit (unat a mod 4 * 16 + unat b div 16),
      base64_digit (unat b mod 16 * 4 + unat c div 64), base64_digit (unat c mod 64)]
     @ base64_encode bs"

definition btoa :: "jsstring \<Rightarrow> error + jsstring" where
  "btoa s =
     (if list_all (\<lambda>c. c \<le> 0xFF) s then Inr (base64_encode (map ucast s))
      else Inl InvalidCharacterError)"


text \<open>
  The payment option of lines 67 to 78. In TypeScript every field but \<^verbatim>\<open>decimals\<close> is a
  string or a number; an absent string reads as falsy, like the empty string.
\<close>

record PaymentAccept =
  scheme :: jsstring
  network :: jsstring
  asset :: jsstring
  symbol :: jsstring
  decimals :: "number optional"
  payTo :: jsstring
  resource :: jsstring
  description :: jsstring
  nonce :: jsstring
  expires :: number

text \<open>
  Lines 541 to 548: the object \<^verbatim>\<open>xPaymentData\<close> and the header made of it,
  \<^verbatim>\<open>btoa(JSON.stringify(xPaymentData))\<close>.
\<close>

definition xPaymentData ::
  "PaymentAccept \<Rightarrow> jsstring \<Rightarrow> jsstring \<Rightarrow> jsstring \<Rightarrow> jsstring \<Rightarrow> json" where
  "xPaymentData option' selectedNetwork' orderId' amountInSmallestUnit txHash' =
     JObject
       [(str ''x402Version'', JNumber 1),
        (str ''scheme'', JString (or_else (scheme option') (str ''exact''))),
        (str ''network'',
           JString (or_else (network option') (or_else selectedNetwork' (str ''Solana'')))),
        (str ''orderId'', JString orderId'),
        (str ''payload'',
           JObject [(str ''amount'', JString amountInSmallestUnit),
                    (str ''txHash'', JString txHash')])]"

definition xPaymentHeader ::
  "PaymentAccept \<Rightarrow> jsstring \<Rightarrow> jsstring \<Rightarrow> jsstring \<Rightarrow> jsstring \<Rightarrow> error + jsstring" where
  "xPaymentHeader option' selectedNetwork' orderId' amountInSmallestUnit txHash' =
     btoa (JSON_stringify
             (xPaymentData option' selectedNetwork' orderId' amountInSmallestUnit txHash'))"

text \<open>
  The envelope as the design document words it: the base64 text of the UTF-8 bytes of the
  JSON text of \<^verbatim>\<open>{x402Version: 1, scheme, network, orderId, payload: {amount, txHash}}\<close>.
  UTF-8 writes one byte for a code unit below 128, two below 2048, four for a surrogate
  pair, three otherwise, and the replacement character for a surrogate without its pair.
\<close>

definition utf8_2 :: "nat \<Rightarrow> 8 word list" where
  "utf8_2 n = [of_nat (192 + n div 64), of_nat (128 + n mod 64)]"

definition utf8_3 :: "nat \<Rightarrow> 8 word list" where
  "utf8_3 n = [of_nat (224 + n div 4096), of_nat (128 + n div 64 mod 64), of_nat (128 + n mod 64)]"

definition utf8_4 :: "nat \<Rightarrow> 8 word list" where
  "utf8_4 n =
     [of_nat (240 + n div 262144), of_nat (128 + n div 4096 mod 64),
      of_nat (128 + n div 64 mod 64), of_nat (128 + n mod 64)]"

fun utf8_encode :: "jsstring \<Rightarrow> 8 word list" where
  "utf8_encode [] = []"
| "utf8_encode (c # cs) =
     (if c < 0x80 then ucast c # utf8_encode cs
      else if c < 0x800 then utf8_2 (unat c) @ utf8_encode cs
      else if isHighSurrogate c then
        (case cs of
           [] \<Rightarrow> utf8_3 0xFFFD
         | d # ds \<Rightarrow>
             if isLowSurrogate d
             then utf8_4 (0x10000 + (unat c - 0xD800) * 0x400 + (unat d - 0xDC00))
                  @ utf8_encode ds
             else utf8_3 0xFFFD @ utf8_encode cs)
      else if isLowSurrogate c then utf8_3 0xFFFD @ utf8_encode cs
      else utf8_3 (unat c) @ utf8_encode cs)"

definition envelope_header ::
  "jsstring \<Rightarrow> jsstring \<Rightarrow> jsstring \<Rightarrow> jsstring \<Rightarrow> jsstring \<Rightarrow> jsstring" where
  "envelope_header scheme' network' orderId' amount' txHash' =
     base64_encode (utf8_encode (JSON_stringify
       (JObject
          [(str ''x402Version'', JNumber 1),
           (str ''scheme'', JString scheme'),
           (str ''network'', JString network'),
           (str ''orderId'', JString orderId'),
           (str ''payload'',
              JObject [(str ''amount'', JString amount'), (str ''txHash'', JString txHash')])])))"

definition isAscii :: "jsstring \<Rightarrow> bool" where
  "isAscii s = list_all (\<lambda>c. c < 0x80) s"


section \<open>The page and its handlers\<close>

text \<open>
  The state of the component \<^verbatim>\<open>Page\<close>, lines 107 to 123, without the wallet display.
  The texts of the chat are not spelled out: one constructor of \<open>chat_text\<close> stands for
  one template of the source, with the values interpolated into it (lines 317, 322, 343,
  348, 368, 386, 521, 572, 608, 625, 216, 110 and 138, in the order of the constructors;
  \<open>OtherText\<close> is any other text). The field \<^verbatim>\<open>text\<close> is \<open>message_text\<close> and the
  field \<^verbatim>\<open>error\<close> is \<open>is_error\<close> here.
\<close>

datatype Step =
    start | pending_payment_info | select_network | select_amount
  | pending_transfer | pending_confirm | success | failed

datatype chat_text =
    NetworkChoiceText jsstring jsstring
  | AskAmountText
  | AmountChoiceText jsstring jsstring
  | StartingTransferText
  | TransferSentText jsstring
  | TransferFailedText error
  | ConfirmingText
  | WaitingText
  | ConfirmedText
  | ConfirmFailedText error
  | ChooseNetworkText
  | WelcomeText
  | PromotionRequestText
  | OtherText jsstring

record ChatMessage =
  message_text :: chat_text
  inversion :: bool
  is_error :: bool
  options :: "(jsstring \<times> jsstring) list option"

record page_state =
  step :: Step
  chatList :: "ChatMessage list"
  paymentOptions :: "PaymentAccept list"
  selectedPaymentOption :: "PaymentAccept option"
  orderId :: jsstring
  selectedAmount :: jsstring
  selectedToken :: jsstring
  selectedNetwork :: jsstring
  actualTransferAmount :: jsstring
  txHash :: jsstring
  resourceid :: jsstring

text \<open>
  \<^verbatim>\<open>xs[i]\<close> for a number \<open>i\<close>: an element when \<open>i\<close> is an integer within the array,
  \<^verbatim>\<open>undefined\<close> otherwise. \<^verbatim>\<open>newList[newList.length - 1] = m\<close> replaces the last
  element, and leaves an empty array empty.
\<close>

definition array_get :: "'a list \<Rightarrow> number \<Rightarrow> 'a option" where
  "array_get xs i =
     (case i of
        Fin r \<Rightarrow> if r \<in> \<int> \<and> 0 \<le> r \<and> nat \<lfloor>r\<rfloor> < length xs then Some (xs ! nat \<lfloor>r\<rfloor>) else None
      | _ \<Rightarrow> None)"

definition replace_last :: "'a list \<Rightarrow> 'a \<Rightarrow> 'a list" where
  "replace_last xs m = (if xs = [] then [] else butlast xs @ [m])"

definition bot_says :: "chat_text \<Rightarrow> ChatMessage" where
  "bot_says t = \<lparr> message_text = t, inversion = False, is_error = False, options = None \<rparr>"

definition bot_fails :: "chat_text \<Rightarrow> ChatMessage" where
  "bot_fails t = \<lparr> message_text = t, inversion = False, is_error = True, options = None \<rparr>"

definition user_says :: "chat_text \<Rightarrow> ChatMessage" where
  "user_says t = \<lparr> message_text = t, inversion = True, is_error = False, options = None \<rparr>"

text \<open>
  \<^verbatim>\<open>Page\<close> is a function component: each render calls it anew, \<^verbatim>\<open>useState\<close> hands it
  the state of that render as constants (\<^verbatim>\<open>const [selectedAmount, setSelectedAmount] = ...\<close>),
  and the handlers are closures made in that call. A handler therefore reads the state of
  the render in which it was created, the snapshot, for as long as it runs, also after an
  \<^verbatim>\<open>await\<close> and also in a handler of the same render that it calls; what it writes with
  the setters is the state that the next render will see. So a handler is a function of
  the snapshot that returns the state after its updates, and where \<^verbatim>\<open>handleSelectAmount\<close>
  calls \<^verbatim>\<open>confirmPayment\<close> after having written, the callee gets the snapshot for its
  reads and the updated state for its writes. (\<^verbatim>\<open>handleSelectAmount\<close> hands the option and
  the decimals over as arguments, line 379; the amount it does not hand over.) The output
  on the console and the toasts are left out.
\<close>

text \<open>Lines 295 to 330.\<close>

definition handleSelectNetwork :: "world \<Rightarrow> page_state \<Rightarrow> jsstring \<Rightarrow> page_state" where
  "handleSelectNetwork w s optionIndex =
     (if paymentOptions s = [] then s
      else
        let parsedIndex = Number_of_string w optionIndex
        in if isNaN parsedIndex then s
           else (case array_get (paymentOptions s) parsedIndex of
                   None \<Rightarrow> s
                 | Some option' \<Rightarrow>
                     let tokenSymbol =
                           toUpperCase w
                             (or_else (symbol option') (or_else (asset option') (str ''USDC'')));
                         amountOptions =
                           [(str ''0.1 '' @ tokenSymbol, str ''0.1''),
                            (str ''0.2 '' @ tokenSymbol, str ''0.2''),
                            (str ''0.3 '' @ tokenSymbol, str ''0.3'')]
                     in s \<lparr> selectedPaymentOption := Some option',
                            selectedNetwork := or_else (network option') (str ''Solana Devnet''),
                            selectedToken := str ''USDC'',
                            chatList := chatList s @
                              [user_says (NetworkChoiceText
                                 (or_else (network option') (str ''Network'')) tokenSymbol),
                               (bot_says AskAmountText) \<lparr> options := Some amountOptions \<rparr>],
                            step := select_amount \<rparr>))"

text \<open>
  Lines 507 to 634. \<open>snap\<close> is the state the closure reads, \<open>cur\<close> the state the setters
  have produced so far. \<^verbatim>\<open>a || b || c\<close> on the numbers of the response keeps the first
  truthy one, or the last.
\<close>

definition truthy :: "number option \<Rightarrow> bool" where
  "truthy x = (case x of None \<Rightarrow> False | Some n \<Rightarrow> n \<noteq> NaN \<and> n \<noteq> Fin 0)"

fun string_includes :: "jsstring \<Rightarrow> jsstring \<Rightarrow> bool" where
  "string_includes [] sub = (sub = [])"
| "string_includes (c # cs) sub = (take (length sub) (c # cs) = sub \<or> string_includes cs sub)"

definition confirm_failed ::
  "error \<Rightarrow> page_state \<Rightarrow> event list \<Rightarrow> (error + unit) \<times> page_state \<times> event list" where
  "confirm_failed e cur evs =
     (Inl e,
      cur \<lparr> chatList := replace_last (chatList cur) (bot_fails (ConfirmFailedText e)),
            step := failed \<rparr>,
      evs)"

definition confirmPayment ::
  "world \<Rightarrow> page_state \<Rightarrow> page_state \<Rightarrow> jsstring \<Rightarrow> PaymentAccept option \<Rightarrow> number option
   \<Rightarrow> (error + unit) \<times> page_state \<times> event list" where
  "confirmPayment w snap cur txHash' paymentOption decimalsOverride =
     (if resourceid snap = [] \<or> orderId snap = [] then (Inl MissingParams, cur, [])
      else
        (case (case paymentOption of Some p \<Rightarrow> Some p | None \<Rightarrow> selectedPaymentOption snap) of
           None \<Rightarrow> (Inl MissingPaymentConfig, cur, [])
         | Some option' \<Rightarrow>
             let cur1 = cur \<lparr> chatList := chatList cur @ [bot_says ConfirmingText] \<rparr>;
                 amountToUse = or_else (actualTransferAmount snap) (selectedAmount snap);
                 decimalsToUse =
                   (case decimalsOverride of
                      Some d \<Rightarrow> d
                    | None \<Rightarrow> resolveDecimals (decimals option') (Some (Fin 6)))
             in (case amountToSmallestUnit amountToUse decimalsToUse of
                   Inl e \<Rightarrow> confirm_failed e cur1 []
                 | Inr units \<Rightarrow>
                     (case xPaymentHeader option' (selectedNetwork snap) (orderId snap)
                             (bigint_toString units) txHash' of
                        Inl e \<Rightarrow> confirm_failed e cur1 []
                      | Inr header \<Rightarrow>
                          let evs = [ResourcePaymentConfirm (resourceid snap) header]
                          in (case resourcePaymentConfirm w (resourceid snap) header of
                                Inl m \<Rightarrow> confirm_failed (Thrown m) cur1 evs
                              | Inr res \<Rightarrow>
                                  let responseCode =
                                        (if truthy (code res) then code res
                                         else if truthy (status res) then status res
                                         else data_code res);
                                      responseMessage =
                                        or_else (string_of (message res))
                                          (string_of (data_message res))
                                  in if responseMessage = str ''Waiting for Payment''
                                        \<or> string_includes responseMessage (str ''Waiting'')
                                     then
                                       (Inr (),
                                        cur1 \<lparr> chatList :=
                                                 replace_last (chatList cur1) (bot_says WaitingText) \<rparr>,
                                        evs @ [SetTimeout ReportSuccess 2000])
                                     else if responseCode = Some (Fin 200)
                                        \<or> (\<not> truthy responseCode \<and> responseMessage = [])
                                     then
                                       (Inr (),
                                        cur1 \<lparr> step := success,
                                               chatList :=
                                                 replace_last (chatList cur1) (bot_says ConfirmedText) \<rparr>,
                                        evs)
                                     else
                                       confirm_failed
                                         (if responseMessage \<noteq> [] then ConfirmRejected responseMessage
                                          else ConfirmFailedCode responseCode)
                                         cur1 evs)))))"

text \<open>Lines 333 to 394.\<close>

definition transfer_failed :: "error \<Rightarrow> page_state \<Rightarrow> page_state" where
  "transfer_failed e cur =
     cur \<lparr> chatList := replace_last (chatList cur) (bot_fails (TransferFailedText e)),
           step := failed \<rparr>"

definition handleSelectAmount ::
  "world \<Rightarrow> page_state \<Rightarrow> jsstring \<Rightarrow> page_state \<times> event list" where
  "handleSelectAmount w s amount' =
     (case selectedPaymentOption s of
        None \<Rightarrow> (s, [])
      | Some option' \<Rightarrow>
          if selectedToken s = [] then (s, [])
          else
            let cur1 = s \<lparr> selectedAmount := amount',
                           actualTransferAmount := amount',
                           chatList := chatList s @
                             [user_says (AmountChoiceText amount' (selectedToken s)),
                              bot_says StartingTransferText],
                           step := pending_transfer \<rparr>;
                decimals' = resolveDecimals (decimals option') (Some SOLANA_DECIMALS)
            in (case sendSolanaTransfer w (payTo option') amount' decimals' of
                  (Inl e, evs) \<Rightarrow> (transfer_failed e cur1, evs)
                | (Inr hash, evs) \<Rightarrow>
                    let cur2 = cur1 \<lparr> txHash := hash,
                                      chatList :=
                                        replace_last (chatList cur1) (bot_says (TransferSentText hash)),
                                      step := pending_confirm \<rparr>
                    in (case confirmPayment w s cur2 hash (Some option') (Some decimals') of
                          (Inl e, cur3, evs') \<Rightarrow> (transfer_failed e cur3, evs @ evs')
                        | (Inr _, cur3, evs') \<Rightarrow> (cur3, evs @ evs'))))"

text \<open>
  Lines 797 to 811: every option button of every chat message has the same click
  handler, which looks at the step only, and is disabled outside the two selection steps.
\<close>

definition onOptionClick :: "world \<Rightarrow> page_state \<Rightarrow> jsstring \<Rightarrow> page_state \<times> event list" where
  "onOptionClick w s option_value =
     (if step s \<noteq> select_network \<and> step s \<noteq> select_amount then (s, [])
      else if step s = select_network then (handleSelectNetwork w s option_value, [])
      else handleSelectAmount w s option_value)"


section \<open>A concrete world\<close>

text \<open>
  One world and one session on which the definitions are run. The payer's token account
  holds 5 USDC and the payer 1 SOL; no account exists at the recipient's address nor at
  its associated address; the gateway accepts every proof. \<open>demo_Number\<close> is
  \<^verbatim>\<open>Number\<close> on the strings of digits and the identity is \<^verbatim>\<open>toUpperCase\<close> on
  \<^verbatim>\<open>"USDC"\<close>, the only arguments they get here. In \<open>direct_world\<close> the
  recipient's address is itself a token account of the mint, in \<open>foreign_world\<close> a token
  account of another mint, and in \<open>foreign_ata_world\<close> the recipient's associated account
  exists and holds another mint; \<open>world_with_lamports n\<close> gives the payer \<open>n\<close> lamports and
  \<open>world_with_tokens t\<close> the token balance \<open>t\<close>.
\<close>

definition payer_key :: pubkey where
  "payer_key = str ''Vote111111111111111111111111111111111111111''"

definition payer_ata :: pubkey where
  "payer_ata = str ''Config1111111111111111111111111111111111111''"

definition recipient_key :: pubkey where
  "recipient_key = str ''Stake11111111111111111111111111111111111111''"

definition recipient_ata :: pubkey where
  "recipient_ata = str ''SysvarRent111111111111111111111111111111111''"

definition other_mint :: jsstring where
  "other_mint = str ''So11111111111111111111111111111111111111112''"

definition ok_response :: response where
  "ok_response =
     \<lparr> code = Some (Fin 200), status = None, message = None, data_code = None,
       data_message = None \<rparr>"

definition demo_Number :: "jsstring \<Rightarrow> number" where
  "demo_Number s =
     (if s \<noteq> [] \<and> list_all isDigit s then Fin (real (decimal_value s)) else NaN)"

definition demo_ata :: "pubkey \<Rightarrow> pubkey \<Rightarrow> bool \<Rightarrow> pubkey outcome" where
  "demo_ata mint owner' allowOwnerOffCurve =
     (if owner' = payer_key then Inr payer_ata else Inr recipient_ata)"

definition demo_accounts :: "pubkey \<Rightarrow> account_info option outcome" where
  "demo_accounts k = Inr (if k = payer_ata then Some \<lparr> owner = TOKEN_PROGRAM_ID \<rparr> else None)"

definition demo_mints :: "pubkey \<Rightarrow> jsstring option outcome" where
  "demo_mints k = Inr (if k = payer_ata then Some SOLANA_USDC_MINT else None)"

definition demo_tokens :: "jsstring \<Rightarrow> jsstring \<Rightarrow> pubkey \<Rightarrow> token_amount option outcome" where
  "demo_tokens raw ui k = Inr (Some \<lparr> amount = raw, uiAmountString = Some ui \<rparr>)"

definition demo_lamports :: "real \<Rightarrow> pubkey \<Rightarrow> number outcome" where
  "demo_lamports n k = Inr (Fin n)"

definition demo_send :: "transaction \<Rightarrow> jsstring outcome" where
  "demo_send tx = Inr (str ''sig'')"

definition demo_confirm :: "jsstring \<Rightarrow> jsstring \<Rightarrow> number \<Rightarrow> unit outcome" where
  "demo_confirm signature blockhash height = Inr ()"

definition demo_gateway :: "jsstring \<Rightarrow> jsstring \<Rightarrow> response outcome" where
  "demo_gateway rid header = Inr ok_response"

definition demo_valid :: "jsstring \<Rightarrow> bool" where
  "demo_valid s = (s = payer_key \<or> s = recipient_key \<or> s = SOLANA_USDC_MINT)"

definition demo_world :: world where
  "demo_world =
     \<lparr> Number_of_string = demo_Number,
       toUpperCase = id,
       secretKey = Some payer_key,
       validPublicKey = demo_valid,
       getAssociatedTokenAddress = demo_ata,
       getAccountInfo = demo_accounts,
       getParsedMint = demo_mints,
       getTokenAccountBalance = demo_tokens (str ''5000000'') (str ''5''),
       getBalance = demo_lamports 1000000000,
       getLatestBlockhash = Inr (str ''blockhash'', Fin 1000),
       sendTransaction = demo_send,
       confirmTransaction = demo_confirm,
       resourcePaymentConfirm = demo_gateway \<rparr>"

definition direct_accounts :: "pubkey \<Rightarrow> account_info option outcome" where
  "direct_accounts k =
     Inr (if k = payer_ata \<or> k = recipient_key then Some \<lparr> owner = TOKEN_PROGRAM_ID \<rparr> else None)"

definition direct_mints :: "jsstring \<Rightarrow> pubkey \<Rightarrow> jsstring option outcome" where
  "direct_mints m k = Inr (if k = recipient_key then Some m else Some SOLANA_USDC_MINT)"

definition direct_world :: world where
  "direct_world =
     demo_world \<lparr> getAccountInfo := direct_accounts, getParsedMint := direct_mints SOLANA_USDC_MINT \<rparr>"

definition foreign_world :: world where
  "foreign_world =
     demo_world \<lparr> getAccountInfo := direct_accounts, getParsedMint := direct_mints other_mint \<rparr>"

definition ata_accounts :: "pubkey \<Rightarrow> account_info option outcome" where
  "ata_accounts k =
     Inr (if k = payer_ata \<or> k = recipient_ata then Some \<lparr> owner = TOKEN_PROGRAM_ID \<rparr> else None)"

definition ata_mints :: "jsstring \<Rightarrow> pubkey \<Rightarrow> jsstring option outcome" where
  "ata_mints m k = Inr (if k = recipient_ata then Some m else Some SOLANA_USDC_MINT)"

definition foreign_ata_world :: world where
  "foreign_ata_world =
     demo_world \<lparr> getAccountInfo := ata_accounts, getParsedMint := ata_mints other_mint \<rparr>"

definition world_with_lamports :: "real \<Rightarrow> world" where
  "world_with_lamports n = demo_world \<lparr> getBalance := demo_lamports n \<rparr>"

definition world_with_tokens :: "jsstring \<Rightarrow> jsstring \<Rightarrow> world" where
  "world_with_tokens raw ui = demo_world \<lparr> getTokenAccountBalance := demo_tokens raw ui \<rparr>"

definition demo_option :: PaymentAccept where
  "demo_option =
     \<lparr> scheme = str ''exact'', network = str ''solana-devnet'', asset = SOLANA_USDC_MINT,
       symbol = str ''USDC'', decimals = Value (Fin 6), payTo = recipient_key,
       resource = [], description = [], nonce = str ''n1'', expires = Fin 0 \<rparr>"

text \<open>
  The session as \<^verbatim>\<open>handleStartPromotion\<close> and \<^verbatim>\<open>fetchPaymentInfo\<close> leave it after a 402
  answer with one option (lines 154 to 161, 174, 205 to 224): the amounts are empty, the
  options, the order and the resource are stored, and the last chat message offers the
  network buttons. The network of the option contains \<^verbatim>\<open>sol\<close>, as the filter of line
  201 demands.
\<close>

definition awaiting_network :: page_state where
  "awaiting_network =
     \<lparr> step = select_network,
       chatList =
         [bot_says WelcomeText,
          user_says PromotionRequestText,
          (bot_says ChooseNetworkText)
            \<lparr> options := Some [(str ''solana-devnet '' @ [0xB7] @ str '' USDC'', str ''0'')] \<rparr>],
       paymentOptions = [demo_option],
       selectedPaymentOption = None,
       orderId = str ''order-1'',
       selectedAmount = [],
       selectedToken = [],
       selectedNetwork = str ''Solana Devnet'',
       actualTransferAmount = [],
       txHash = [],
       resourceid = str ''abcdefgh'' \<rparr>"

definition awaiting_amount :: page_state where
  "awaiting_amount = handleSelectNetwork demo_world awaiting_network (str ''0'')"

section \<open>Properties of the amount codec\<close>

lemma replicate_numeral_unfold: "replicate (numeral k) x = x # replicate (pred_numeral k) x"
  by (simp add: numeral_eq_Suc)

lemmas codec_eval = amountToSmallestUnit_def str_def strip_non_digits_def isDigit_def
  or_else_def repeat_def slice0_def BigInt_of_string_def trimString_def isStrWhiteSpace_def
  parseInteger_def digitValue_def replicate_numeral_unfold String_max_length_def
  string_concat_def BigInt_too_big_def






lemma digitValue_digit: "isDigit c \<Longrightarrow> digitValue c = Some (unat c - 48) \<and> unat c - 48 < 10"
  unfolding isDigit_def digitValue_def
  by (auto simp: word_le_nat_alt)

lemma parseDigits_digits:
  "list_all isDigit ds \<Longrightarrow>
   parseDigits 10 ds acc = Some (foldl (\<lambda>acc c. acc * 10 + (unat c - 48)) acc ds)"
  by (induction ds arbitrary: acc) (auto simp: digitValue_digit)

lemma digit_not_space: "isDigit c \<Longrightarrow> \<not> isStrWhiteSpace c"
  unfolding isDigit_def isStrWhiteSpace_def
  by (auto simp: word_le_nat_alt)

lemma trimString_digits:
  assumes "list_all isDigit ds"
  shows "trimString ds = ds"
proof (cases ds)
  case Nil
  then show ?thesis by (simp add: trimString_def)
next
  case (Cons c cs)
  with assms have "\<not> isStrWhiteSpace c" by (simp add: digit_not_space)
  then have 1: "dropWhile isStrWhiteSpace ds = ds" using Cons by simp
  have "rev ds \<noteq> []" using Cons by simp
  then obtain d rs where r: "rev ds = d # rs" by (cases "rev ds") auto
  then have "d \<in> set ds" by (metis list.set_intros(1) set_rev)
  with assms have "\<not> isStrWhiteSpace d" by (auto simp: list_all_iff digit_not_space)
  then have "dropWhile isStrWhiteSpace (rev ds) = rev ds" using r by simp
  with 1 show ?thesis by (simp add: trimString_def)
qed

lemma strIntegerLiteral_digits:
  assumes "list_all isDigit ds"
  shows "strIntegerLiteral ds = parseInteger 10 ds"
proof (cases ds rule: strIntegerLiteral.cases)
  case (1 a b cs)
  with assms have "isDigit a" "isDigit b" by simp_all
  then have "a \<noteq> 0x2B" "a \<noteq> 0x2D" "b \<noteq> 0x78" "b \<noteq> 0x58" "b \<noteq> 0x6F" "b \<noteq> 0x4F"
      "b \<noteq> 0x62" "b \<noteq> 0x42"
    unfolding isDigit_def by auto
  with 1 show ?thesis by simp
qed simp_all


lemma BigInt_fits_zeros: "\<not> BigInt_too_big 10 (replicate n 0x30)"
proof -
  have "dropWhile (\<lambda>c. c = 0x30) (replicate n (0x30 :: 16 word)) = []"
    by (induction n) auto
  then show ?thesis by (simp add: BigInt_too_big_def)
qed

lemma BigInt_of_string_digits:
  assumes "list_all isDigit ds" and "ds \<noteq> []" and "\<not> BigInt_too_big 10 ds"
  shows "BigInt_of_string ds = Inr (int (decimal_value ds))"
  using assms
  by (simp add: BigInt_of_string_def trimString_digits strIntegerLiteral_digits
      parseInteger_def parseDigits_digits decimal_value_def)

lemma decimal_value_zeros: "decimal_value (replicate n 0x30) = 0"
proof -
  have "foldl (\<lambda>acc c. acc * 10 + (unat c - 48)) 0 (replicate n (0x30 :: 16 word)) = 0"
    by (induction n) auto
  then show ?thesis by (simp add: decimal_value_def)
qed

lemma BigInt_of_string_zeros: "BigInt_of_string (replicate (Suc n) 0x30) = Inr 0"
proof -
  have z: "list_all isDigit (replicate (Suc n) (0x30 :: 16 word))"
    by (simp add: list_all_iff isDigit_def)
  have "BigInt_of_string (replicate (Suc n) 0x30)
        = Inr (int (decimal_value (replicate (Suc n) 0x30)))"
    using BigInt_of_string_digits [OF z _ BigInt_fits_zeros] by simp
  then show ?thesis by (simp only: decimal_value_zeros) simp
qed






text \<open>
  Claim C5. The codec on the four test vectors of the design document:
  \<^verbatim>\<open>"0.1"\<close> at 6 decimals is 100000; \<^verbatim>\<open>"0.1234567"\<close> at 6 decimals is 123456, the
  seventh fractional digit being cut off, not rounded; the empty string at 6 decimals is 0;
  \<^verbatim>\<open>"abc.def"\<close> at 2 decimals is 0.
\<close>

theorem amountToSmallestUnit_vectors:
  "amountToSmallestUnit (str ''0.1'') (Fin 6) = Inr 100000
   \<and> amountToSmallestUnit (str ''0.1234567'') (Fin 6) = Inr 123456
   \<and> amountToSmallestUnit (str []) (Fin 6) = Inr 0
   \<and> amountToSmallestUnit (str ''abc.def'') (Fin 2) = Inr 0"
proof -
  have "amountToSmallestUnit (str ''0.1'') (Fin 6) = Inr 100000"
    by (simp add: codec_eval)
  moreover have "amountToSmallestUnit (str ''0.1234567'') (Fin 6) = Inr 123456"
    by (simp add: codec_eval)
  moreover have "amountToSmallestUnit (str []) (Fin 6) = Inr 0"
    by (simp add: codec_eval)
  moreover have "amountToSmallestUnit (str ''abc.def'') (Fin 2) = Inr 0"
    by (simp add: codec_eval)
  ultimately show ?thesis by simp
qed




section \<open>Properties of the decimals fallback\<close>

text \<open>
  Claim C10. \<^verbatim>\<open>resolveDecimals(d, f)\<close> is the fallback \<open>f\<close> when \<open>d\<close> is
  \<^verbatim>\<open>undefined\<close>, \<^verbatim>\<open>null\<close>, \<open>NaN\<close> or at most 0, and \<open>d\<close> otherwise; the fallback
  is \<^verbatim>\<open>SOLANA_DECIMALS\<close>, that is 6, when the caller gives none. So an option that
  declares 0 decimals is resolved to 6, not to 0.
\<close>

theorem resolveDecimals_cases:
  "resolveDecimals Undefined fb = fallback_or_default fb
   \<and> resolveDecimals Null fb = fallback_or_default fb
   \<and> resolveDecimals (Value NaN) fb = fallback_or_default fb
   \<and> (num_le d (Fin 0) \<longrightarrow> resolveDecimals (Value d) fb = fallback_or_default fb)
   \<and> (d \<noteq> NaN \<and> \<not> num_le d (Fin 0) \<longrightarrow> resolveDecimals (Value d) fb = d)
   \<and> fallback_or_default (Some f) = f
   \<and> fallback_or_default None = Fin 6
   \<and> resolveDecimals (Value (Fin 0)) None = Fin 6"
  by (simp add: resolveDecimals_def fallback_or_default_def SOLANA_DECIMALS_def isNaN_def)

theorem resolveDecimals_cases_witness:
  "num_le (Fin 0) (Fin 0) \<and> resolveDecimals (Value (Fin 0)) (Some (Fin 6)) = Fin 6
   \<and> Fin 9 \<noteq> NaN \<and> \<not> num_le (Fin 9) (Fin 0)
   \<and> resolveDecimals (Value (Fin 9)) (Some (Fin 6)) = Fin 9"
  using resolveDecimals_cases [of "Some (Fin 6)" "Fin 0" "Fin 6"]
    resolveDecimals_cases [of "Some (Fin 6)" "Fin 9" "Fin 6"]
  by simp

section \<open>Properties of the token transfer\<close>

lemma bind_Inr: "bind (Inr x, evs) f = (fst (f x), evs @ snd (f x))"
  by (simp add: bind_def split: prod.splits)

lemma bind_Inl: "bind (Inl e, evs) f = (Inl e, evs)"
  by (simp add: bind_def)

lemma bind_lift_Inr: "bind (lift (Inr x)) f = f x"
  by (simp add: lift_def bind_Inr)

lemma bind_lift_Inl: "bind (lift (Inl e)) f = (Inl e, [])"
  by (simp add: lift_def bind_Inl)

lemma bind_call_Inr: "bind (call ev (Inr x)) f = (fst (f x), ev # snd (f x))"
  by (simp add: call_def bind_Inr)

lemma bind_call_Inl: "bind (call ev (Inl m)) f = (Inl (Thrown m), [ev])"
  by (simp add: call_def bind_Inl)

lemma bind_throw: "bind (throw e) f = (Inl e, [])"
  by (simp add: throw_def bind_Inl)

lemma fst_ret: "fst (ret x) = Inr x" and snd_ret: "snd (ret x) = []"
  and fst_throw: "fst (throw e) = Inl e" and snd_throw: "snd (throw e) = []"
  by (simp_all add: ret_def throw_def)

lemmas io_simps = bind_Inr bind_Inl bind_lift_Inr bind_lift_Inl bind_call_Inr bind_call_Inl
  bind_throw fst_ret snd_ret fst_throw snd_throw

lemma bind_events:
  assumes "ev \<in> set (snd (bind m f))"
  shows "ev \<in> set (snd m) \<or> (\<exists>x. fst m = Inr x \<and> ev \<in> set (snd (f x)))"
proof (cases m)
  case (Pair r evs)
  show ?thesis
  proof (cases r)
    case (Inl e)
    with Pair assms show ?thesis by (simp add: bind_Inl)
  next
    case (Inr x)
    with Pair assms show ?thesis by (auto simp: bind_Inr)
  qed
qed

lemma bind_result:
  assumes "fst (bind m f) = Inr y"
  shows "\<exists>x. fst m = Inr x \<and> fst (f x) = Inr y"
proof (cases m)
  case (Pair r evs)
  show ?thesis
  proof (cases r)
    case (Inl e)
    with Pair assms show ?thesis by (simp add: bind_Inl)
  next
    case (Inr x)
    with Pair assms show ?thesis by (auto simp: bind_Inr)
  qed
qed

lemma bind_success:
  "fst m = Inr x \<Longrightarrow> bind m f = (fst (f x), snd m @ snd (f x))"
  by (cases m) (simp add: bind_Inr)

lemma snd_call: "snd (call ev r) = [ev]"
  by (simp add: call_def split: sum.splits)

lemma fst_call: "fst (call ev r) = Inr x \<longleftrightarrow> r = Inr x"
  by (simp add: call_def split: sum.splits)

lemma snd_lift: "snd (lift r) = []" and fst_lift: "fst (lift r) = r"
  by (simp_all add: lift_def)

lemma snd_rethrow: "snd (rethrow m) = snd m"
  by (simp add: rethrow_def split: prod.splits sum.splits error.splits)

lemma fst_rethrow:
  "fst (rethrow m) = (case fst m of Inl (Thrown msg) \<Rightarrow> Inl (if msg = [] then TransferFailed else Thrown msg) | r \<Rightarrow> r)"
  by (simp add: rethrow_def split: prod.splits sum.splits error.splits)

text \<open>Events of the stages.\<close>

lemma resolveDestination_direct:
  assumes "getAccountInfo w recipient = Inr (Some info)" and "owner info = TOKEN_PROGRAM_ID"
  shows "resolveDestination w payer recipient mint =
           (case getParsedMint w recipient of
              Inl m \<Rightarrow> (Inl (Thrown m), [GetAccountInfo recipient, GetParsedAccountInfo recipient])
            | Inr accountMint \<Rightarrow>
                (if mint_differs accountMint then Inl (MintMismatch Direct) else Inr (recipient, []),
                 [GetAccountInfo recipient, GetParsedAccountInfo recipient]))"
  using assms
  by (simp add: resolveDestination_def io_simps ret_def throw_def split: sum.splits)

lemma resolveDestination_associated:
  assumes "getAccountInfo w recipient = Inr direct"
    and "\<not> (case direct of None \<Rightarrow> False | Some info \<Rightarrow> owner info = TOKEN_PROGRAM_ID)"
    and "getAssociatedTokenAddress w mint recipient True = Inr ata"
    and "getAccountInfo w ata = Inr (Some info')" and "owner info' = TOKEN_PROGRAM_ID"
  shows "resolveDestination w payer recipient mint =
           (case getParsedMint w ata of
              Inl m \<Rightarrow> (Inl (Thrown m),
                 [GetAccountInfo recipient, GetAssociatedTokenAddress mint recipient True,
                  GetAccountInfo ata, GetParsedAccountInfo ata])
            | Inr ataMint \<Rightarrow>
                (if mint_differs ataMint then Inl (MintMismatch Associated) else Inr (ata, []),
                 [GetAccountInfo recipient, GetAssociatedTokenAddress mint recipient True,
                  GetAccountInfo ata, GetParsedAccountInfo ata]))"
  using assms
  by (simp add: resolveDestination_def io_simps ret_def throw_def split: sum.splits)

lemma checkBalances_events:
  "set (snd (checkBalances w payer from amt units)) \<subseteq> {GetTokenAccountBalance from, GetBalance payer}"
  by (auto simp: checkBalances_def bind_def call_def lift_def throw_def ret_def
      split: sum.splits prod.splits if_splits)

lemma submitTransfer_events:
  assumes "ev \<in> set (snd (submitTransfer w payer from to instrs units))"
  shows "ev = GetLatestBlockhash \<or> (\<exists>sg. ev = ConfirmTransaction sg)
         \<or> ev = SetTimeout FetchWalletInfo 2000
         \<or> (\<exists>tx. ev = SendTransaction tx \<and> instructions tx = instrs @ [Transfer from to payer units])"
  using assms
  by (auto simp: submitTransfer_def bind_def call_def ret_def Let_def
      split: sum.splits prod.splits if_splits)

lemma resolveDestination_events:
  assumes "ev \<in> set (snd (resolveDestination w payer recipient mint))"
  shows "(\<exists>k. ev = GetAccountInfo k) \<or> (\<exists>k. ev = GetParsedAccountInfo k)
         \<or> ev = GetAssociatedTokenAddress mint recipient True"
  using assms
  by (auto simp: resolveDestination_def bind_def call_def ret_def throw_def
      split: sum.splits prod.splits if_splits option.splits)

lemma prepareTransfer_events:
  assumes "ev \<in> set (snd (prepareTransfer w toAddress amt dec))"
  shows "(\<exists>payer. secretKey w = Some payer \<and> ev = GetAssociatedTokenAddress SOLANA_USDC_MINT payer False)
         \<or> (\<exists>k. ev = GetAccountInfo k)
         \<or> (\<exists>payer. ev \<in> set (snd (resolveDestination w payer toAddress SOLANA_USDC_MINT)))"
  using assms
  unfolding prepareTransfer_def getSolanaKeypair_def PublicKey_def
  by (auto simp: lift_def throw_def ret_def snd_call bind_Inl bind_Inr
      dest!: bind_events split: option.splits if_splits prod.splits)

lemma no_submission_in_prepare: "SendTransaction tx \<notin> set (snd (prepareTransfer w toAddress amt dec))"
  by (auto dest!: prepareTransfer_events resolveDestination_events)

lemma no_balance_query_in_prepare: "GetBalance k \<notin> set (snd (prepareTransfer w toAddress amt dec))"
  by (auto dest!: prepareTransfer_events resolveDestination_events)

lemma no_submission_in_checks: "SendTransaction tx \<notin> set (snd (checkBalances w payer from amt units))"
  using checkBalances_events [of w payer "from" amt units] by auto

lemma sendSolanaTransfer_prepare_failed:
  assumes "fst (prepareTransfer w toAddress amt dec) = Inl e"
  shows "snd (sendSolanaTransfer w toAddress amt dec) = snd (prepareTransfer w toAddress amt dec)"
    and "fst (sendSolanaTransfer w toAddress amt dec) =
           (case e of Thrown msg \<Rightarrow> Inl (if msg = [] then TransferFailed else Thrown msg) | _ \<Rightarrow> Inl e)"
  using assms
  by (cases "prepareTransfer w toAddress amt dec";
      simp add: sendSolanaTransfer_def bind_Inl snd_rethrow fst_rethrow split: error.splits)+

lemma sendSolanaTransfer_prepared:
  assumes "fst (prepareTransfer w toAddress amt dec) = Inr (payer, from, dest, instrs, units)"
  shows "snd (sendSolanaTransfer w toAddress amt dec) =
           snd (prepareTransfer w toAddress amt dec)
           @ snd (bind (checkBalances w payer from amt units)
                    (\<lambda>_. submitTransfer w payer from dest instrs units))"
    and "fst (sendSolanaTransfer w toAddress amt dec) =
           fst (rethrow (bind (checkBalances w payer from amt units)
                    (\<lambda>_. submitTransfer w payer from dest instrs units)))"
  using assms
  by (simp_all add: sendSolanaTransfer_def bind_success snd_rethrow fst_rethrow)

lemma checkBalances_short:
  assumes "getTokenAccountBalance w from = Inr bal"
    and "BigInt_of_string (or_else (case bal of None \<Rightarrow> [] | Some v \<Rightarrow> amount v) (str ''0'')) = Inr tokens"
    and "tokens < units"
  shows "checkBalances w payer from amt units =
           (Inl (InsufficientBalance
                   (or_else (case bal of None \<Rightarrow> [] | Some v \<Rightarrow> string_of (uiAmountString v)) (str ''0''))
                   amt),
            [GetTokenAccountBalance from])"
  using assms by (simp add: checkBalances_def io_simps throw_def)

lemma checkBalances_no_fee:
  assumes "getTokenAccountBalance w from = Inr bal"
    and "BigInt_of_string (or_else (case bal of None \<Rightarrow> [] | Some v \<Rightarrow> amount v) (str ''0'')) = Inr tokens"
    and "units \<le> tokens"
    and "getBalance w payer = Inr lamports" and "BigInt_of_number lamports = Inr native"
    and "native < 10000000"
  shows "checkBalances w payer from amt units =
           (Inl InsufficientFee, [GetTokenAccountBalance from, GetBalance payer])"
  using assms by (simp add: checkBalances_def io_simps throw_def)

lemma checkBalances_passed:
  assumes "fst (checkBalances w payer from amt units) = Inr u"
    and "getTokenAccountBalance w from = Inr bal"
    and "BigInt_of_string (or_else (case bal of None \<Rightarrow> [] | Some v \<Rightarrow> amount v) (str ''0'')) = Inr tokens"
  shows "units \<le> tokens
         \<and> (\<exists>lamports native. getBalance w payer = Inr lamports
               \<and> BigInt_of_number lamports = Inr native \<and> 10000000 \<le> native)"
proof -
  have 1: "units \<le> tokens"
  proof (rule ccontr)
    assume "\<not> units \<le> tokens"
    then have "tokens < units" by simp
    from checkBalances_short [OF assms(2,3) this] assms(1) show False by simp
  qed
  then have 2: "checkBalances w payer from amt units =
      (case getBalance w payer of
         Inl m \<Rightarrow> (Inl (Thrown m), [GetTokenAccountBalance from, GetBalance payer])
       | Inr lamports \<Rightarrow>
          (case BigInt_of_number lamports of
             Inl e \<Rightarrow> (Inl e, [GetTokenAccountBalance from, GetBalance payer])
           | Inr native \<Rightarrow>
               (if native < 10000000 then Inl InsufficientFee else Inr (),
                [GetTokenAccountBalance from, GetBalance payer])))"
    using assms(2,3)
    by (simp add: checkBalances_def io_simps throw_def ret_def split: sum.splits)
  from assms(1) show ?thesis
    unfolding 2 using 1 by (auto split: sum.splits if_splits)
qed

text \<open>
  Claim C2. Once \<^verbatim>\<open>sendSolanaTransfer\<close> has resolved the accounts and the amount (lines
  398 to 447), it checks the sender's token balance against the amount in minor units
  first: when the balance is lower the transfer fails with the insufficient-balance error,
  the native balance is not even queried and nothing is submitted. Then it checks the
  native balance against the reserve of 10000000 lamports (0.01 SOL): when that is lower
  the transfer fails with the insufficient-fee error and nothing is submitted. Whenever a
  transaction is submitted, both checks have passed.
\<close>

theorem balance_checks_before_submission:
  assumes "fst (prepareTransfer w toAddress amt dec) = Inr (payer, from, dest, instrs, units)"
    and "getTokenAccountBalance w from = Inr bal"
    and "BigInt_of_string (or_else (case bal of None \<Rightarrow> [] | Some v \<Rightarrow> amount v) (str ''0''))
         = Inr tokens"
  shows "(tokens < units \<longrightarrow>
            (\<exists>shown. fst (sendSolanaTransfer w toAddress amt dec) = Inl (InsufficientBalance shown amt))
            \<and> GetBalance payer \<notin> set (snd (sendSolanaTransfer w toAddress amt dec))
            \<and> (\<forall>tx. SendTransaction tx \<notin> set (snd (sendSolanaTransfer w toAddress amt dec))))
         \<and> (units \<le> tokens \<and> getBalance w payer = Inr lamports
              \<and> BigInt_of_number lamports = Inr native \<and> native < 10000000 \<longrightarrow>
            fst (sendSolanaTransfer w toAddress amt dec) = Inl InsufficientFee
            \<and> (\<forall>tx. SendTransaction tx \<notin> set (snd (sendSolanaTransfer w toAddress amt dec))))
         \<and> ((\<exists>tx. SendTransaction tx \<in> set (snd (sendSolanaTransfer w toAddress amt dec))) \<longrightarrow>
            units \<le> tokens
            \<and> (\<exists>lamports native. getBalance w payer = Inr lamports
                  \<and> BigInt_of_number lamports = Inr native \<and> 10000000 \<le> native))"
proof (intro conjI impI)
  note run = sendSolanaTransfer_prepared [OF assms(1)]
  {
    assume low: "tokens < units"
    note cb = checkBalances_short [OF assms(2,3) low, of payer amt]
    show "\<exists>shown. fst (sendSolanaTransfer w toAddress amt dec) = Inl (InsufficientBalance shown amt)"
      by (simp add: run cb bind_Inl fst_rethrow)
    show "GetBalance payer \<notin> set (snd (sendSolanaTransfer w toAddress amt dec))"
      by (simp add: run cb bind_Inl no_balance_query_in_prepare)
    show "\<forall>tx. SendTransaction tx \<notin> set (snd (sendSolanaTransfer w toAddress amt dec))"
      by (simp add: run cb bind_Inl no_submission_in_prepare)
  }
  {
    assume fee: "units \<le> tokens \<and> getBalance w payer = Inr lamports
              \<and> BigInt_of_number lamports = Inr native \<and> native < 10000000"
    then have cb: "checkBalances w payer from amt units =
           (Inl InsufficientFee, [GetTokenAccountBalance from, GetBalance payer])"
      using checkBalances_no_fee [OF assms(2,3)] by blast
    show "fst (sendSolanaTransfer w toAddress amt dec) = Inl InsufficientFee"
      by (simp add: run cb bind_Inl fst_rethrow)
    show "\<forall>tx. SendTransaction tx \<notin> set (snd (sendSolanaTransfer w toAddress amt dec))"
      by (simp add: run cb bind_Inl no_submission_in_prepare)
  }
  {
    assume "\<exists>tx. SendTransaction tx \<in> set (snd (sendSolanaTransfer w toAddress amt dec))"
    then obtain tx where "SendTransaction tx \<in> set (snd (bind (checkBalances w payer from amt units)
                    (\<lambda>_. submitTransfer w payer from dest instrs units)))"
      by (auto simp: run no_submission_in_prepare)
    from bind_events [OF this] obtain u where u: "fst (checkBalances w payer from amt units) = Inr u"
      using no_submission_in_checks by blast
    from checkBalances_passed [OF u assms(2,3)]
    show "units \<le> tokens" and "\<exists>lamports native. getBalance w payer = Inr lamports
                  \<and> BigInt_of_number lamports = Inr native \<and> 10000000 \<le> native"
      by blast+
  }
qed

lemmas transfer_eval = sendSolanaTransfer_def prepareTransfer_def resolveDestination_def
  checkBalances_def submitTransfer_def getSolanaKeypair_def PublicKey_def mint_differs_def
  rethrow_def ret_def throw_def string_of_def

lemmas world_eval = demo_world_def direct_world_def foreign_world_def foreign_ata_world_def
  world_with_lamports_def world_with_tokens_def demo_ata_def demo_accounts_def demo_mints_def
  demo_tokens_def demo_lamports_def demo_send_def demo_confirm_def demo_gateway_def
  demo_valid_def direct_accounts_def direct_mints_def ata_accounts_def ata_mints_def

lemmas keys_eval = payer_key_def payer_ata_def recipient_key_def recipient_ata_def
  SOLANA_USDC_MINT_def TOKEN_PROGRAM_ID_def other_mint_def

lemma demo_keys_distinct:
  "payer_key \<noteq> recipient_key" "payer_ata \<noteq> recipient_ata" "recipient_key \<noteq> payer_ata"
  "recipient_key \<noteq> payer_key" "recipient_ata \<noteq> payer_ata" "payer_ata \<noteq> recipient_key"
  "recipient_ata \<noteq> recipient_key" "recipient_key \<noteq> recipient_ata"
  "other_mint \<noteq> []" "other_mint \<noteq> SOLANA_USDC_MINT"
  by (simp_all add: keys_eval str_def)

lemma str_nonempty: "str (c # cs) \<noteq> []"
  by (simp add: str_def)

lemma or_else_nonempty: "s \<noteq> [] \<Longrightarrow> or_else s t = s"
  by (simp add: or_else_def)

lemma units_02: "amountToSmallestUnit (str ''0.2'') (Fin 6) = Inr 200000"
  by (simp add: codec_eval)

lemma tokens_5000000: "BigInt_of_string (str ''5000000'') = Inr 5000000"
  by (simp add: codec_eval)

lemma tokens_50000: "BigInt_of_string (str ''50000'') = Inr 50000"
  by (simp add: codec_eval)

lemmas run_eval = transfer_eval io_simps world_eval units_02 tokens_5000000 tokens_50000
  or_else_nonempty str_nonempty

lemma prepare_demo:
  "prepareTransfer demo_world recipient_key (str ''0.2'') (Fin 6) =
     (Inr (payer_key, payer_ata, recipient_ata,
           [CreateAssociatedTokenAccount payer_key recipient_ata recipient_key SOLANA_USDC_MINT],
           200000),
      [GetAssociatedTokenAddress SOLANA_USDC_MINT payer_key False,
       GetAccountInfo payer_ata,
       GetAccountInfo recipient_key,
       GetAssociatedTokenAddress SOLANA_USDC_MINT recipient_key True,
       GetAccountInfo recipient_ata])"
  "prepareTransfer (world_with_lamports n) recipient_key (str ''0.2'') (Fin 6) =
     (Inr (payer_key, payer_ata, recipient_ata,
           [CreateAssociatedTokenAccount payer_key recipient_ata recipient_key SOLANA_USDC_MINT],
           200000),
      [GetAssociatedTokenAddress SOLANA_USDC_MINT payer_key False,
       GetAccountInfo payer_ata,
       GetAccountInfo recipient_key,
       GetAssociatedTokenAddress SOLANA_USDC_MINT recipient_key True,
       GetAccountInfo recipient_ata])"
  "prepareTransfer (world_with_tokens raw ui) recipient_key (str ''0.2'') (Fin 6) =
     (Inr (payer_key, payer_ata, recipient_ata,
           [CreateAssociatedTokenAccount payer_key recipient_ata recipient_key SOLANA_USDC_MINT],
           200000),
      [GetAssociatedTokenAddress SOLANA_USDC_MINT payer_key False,
       GetAccountInfo payer_ata,
       GetAccountInfo recipient_key,
       GetAssociatedTokenAddress SOLANA_USDC_MINT recipient_key True,
       GetAccountInfo recipient_ata])"
  using demo_keys_distinct
  by (simp_all add: prepareTransfer_def resolveDestination_def getSolanaKeypair_def PublicKey_def
      ret_def io_simps world_eval units_02)

lemma run_demo:
  "sendSolanaTransfer demo_world recipient_key (str ''0.2'') (Fin 6) =
   (Inr (str ''sig''),
    [GetAssociatedTokenAddress SOLANA_USDC_MINT payer_key False,
     GetAccountInfo payer_ata,
     GetAccountInfo recipient_key,
     GetAssociatedTokenAddress SOLANA_USDC_MINT recipient_key True,
     GetAccountInfo recipient_ata,
     GetTokenAccountBalance payer_ata,
     GetBalance payer_key,
     GetLatestBlockhash,
     SendTransaction
       \<lparr> instructions =
           [CreateAssociatedTokenAccount payer_key recipient_ata recipient_key SOLANA_USDC_MINT,
            Transfer payer_ata recipient_ata payer_key 200000],
         recentBlockhash = str ''blockhash'', lastValidBlockHeight = Fin 1000,
         feePayer = payer_key \<rparr>,
     ConfirmTransaction (str ''sig''),
     SetTimeout FetchWalletInfo 2000])"
  using demo_keys_distinct
  by (simp add: run_eval)

lemma run_direct:
  "sendSolanaTransfer direct_world recipient_key (str ''0.2'') (Fin 6) =
   (Inr (str ''sig''),
    [GetAssociatedTokenAddress SOLANA_USDC_MINT payer_key False,
     GetAccountInfo payer_ata,
     GetAccountInfo recipient_key,
     GetParsedAccountInfo recipient_key,
     GetTokenAccountBalance payer_ata,
     GetBalance payer_key,
     GetLatestBlockhash,
     SendTransaction
       \<lparr> instructions = [Transfer payer_ata recipient_key payer_key 200000],
         recentBlockhash = str ''blockhash'', lastValidBlockHeight = Fin 1000,
         feePayer = payer_key \<rparr>,
     ConfirmTransaction (str ''sig''),
     SetTimeout FetchWalletInfo 2000])"
  using demo_keys_distinct
  by (simp add: run_eval)

theorem balance_checks_before_submission_witness:
  "fst (prepareTransfer (world_with_tokens (str ''50000'') (str ''0.05'')) recipient_key
          (str ''0.2'') (Fin 6))
     = Inr (payer_key, payer_ata, recipient_ata,
            [CreateAssociatedTokenAccount payer_key recipient_ata recipient_key SOLANA_USDC_MINT],
            200000)
   \<and> BigInt_of_string (or_else (str ''50000'') (str ''0'')) = Inr 50000
   \<and> (50000 :: int) < 200000
   \<and> fst (sendSolanaTransfer (world_with_tokens (str ''50000'') (str ''0.05'')) recipient_key
            (str ''0.2'') (Fin 6))
       = Inl (InsufficientBalance (str ''0.05'') (str ''0.2''))
   \<and> GetBalance payer_key
       \<notin> set (snd (sendSolanaTransfer (world_with_tokens (str ''50000'') (str ''0.05''))
                     recipient_key (str ''0.2'') (Fin 6)))
   \<and> (\<forall>tx. SendTransaction tx
       \<notin> set (snd (sendSolanaTransfer (world_with_tokens (str ''50000'') (str ''0.05''))
                     recipient_key (str ''0.2'') (Fin 6))))
   \<and> (10 :: int) < 10000000
   \<and> fst (sendSolanaTransfer (world_with_lamports 10) recipient_key (str ''0.2'') (Fin 6))
       = Inl InsufficientFee
   \<and> (\<forall>tx. SendTransaction tx
       \<notin> set (snd (sendSolanaTransfer (world_with_lamports 10) recipient_key (str ''0.2'')
                     (Fin 6))))
   \<and> (\<exists>tx. SendTransaction tx
       \<in> set (snd (sendSolanaTransfer demo_world recipient_key (str ''0.2'') (Fin 6))))
   \<and> (\<exists>lamports native. getBalance demo_world payer_key = Inr lamports
         \<and> BigInt_of_number lamports = Inr native \<and> 10000000 \<le> native)"
proof -
  let ?low = "world_with_tokens (str ''50000'') (str ''0.05'')"
  let ?bal = "Some \<lparr> amount = str ''50000'', uiAmountString = Some (str ''0.05'') \<rparr>"
  have p1: "fst (prepareTransfer ?low recipient_key (str ''0.2'') (Fin 6))
     = Inr (payer_key, payer_ata, recipient_ata,
            [CreateAssociatedTokenAccount payer_key recipient_ata recipient_key SOLANA_USDC_MINT],
            200000)"
    by (simp add: prepare_demo)
  have b1: "getTokenAccountBalance ?low payer_ata = Inr ?bal"
    by (simp add: world_eval)
  have t1: "BigInt_of_string (or_else (case ?bal of None \<Rightarrow> [] | Some v \<Rightarrow> amount v) (str ''0''))
            = Inr 50000"
    by (simp add: tokens_50000 or_else_nonempty str_nonempty)
  note low = balance_checks_before_submission [OF p1 b1 t1]
  have e1: "fst (sendSolanaTransfer ?low recipient_key (str ''0.2'') (Fin 6))
       = Inl (InsufficientBalance (str ''0.05'') (str ''0.2''))"
    using demo_keys_distinct
    by (simp add: run_eval)
  let ?poor = "world_with_lamports 10"
  let ?bal5 = "Some \<lparr> amount = str ''5000000'', uiAmountString = Some (str ''5'') \<rparr>"
  have p2: "fst (prepareTransfer ?poor recipient_key (str ''0.2'') (Fin 6))
     = Inr (payer_key, payer_ata, recipient_ata,
            [CreateAssociatedTokenAccount payer_key recipient_ata recipient_key SOLANA_USDC_MINT],
            200000)"
    by (simp add: prepare_demo)
  have b2: "getTokenAccountBalance ?poor payer_ata = Inr ?bal5"
    by (simp add: world_eval)
  have t2: "BigInt_of_string (or_else (case ?bal5 of None \<Rightarrow> [] | Some v \<Rightarrow> amount v) (str ''0''))
            = Inr 5000000"
    by (simp add: tokens_5000000 or_else_nonempty str_nonempty)
  have l2: "getBalance ?poor payer_key = Inr (Fin 10)" "BigInt_of_number (Fin 10) = Inr 10"
    by (simp_all add: world_eval)
  note poor = balance_checks_before_submission [OF p2 b2 t2, of "Fin 10" 10]
  have p3: "fst (prepareTransfer demo_world recipient_key (str ''0.2'') (Fin 6))
     = Inr (payer_key, payer_ata, recipient_ata,
            [CreateAssociatedTokenAccount payer_key recipient_ata recipient_key SOLANA_USDC_MINT],
            200000)"
    by (simp add: prepare_demo)
  have b3: "getTokenAccountBalance demo_world payer_ata = Inr ?bal5"
    by (simp add: world_eval)
  have s3: "\<exists>tx. SendTransaction tx
       \<in> set (snd (sendSolanaTransfer demo_world recipient_key (str ''0.2'') (Fin 6)))"
    by (simp add: run_demo)
  from balance_checks_before_submission [OF p3 b3 t2] s3
  have rich: "\<exists>lamports native. getBalance demo_world payer_key = Inr lamports
         \<and> BigInt_of_number lamports = Inr native \<and> 10000000 \<le> native"
    by blast
  from low poor p1 e1 l2 s3 rich show ?thesis
    by (simp add: tokens_50000 or_else_nonempty str_nonempty)
qed

lemma prepareTransfer_direct:
  assumes "getAccountInfo w toAddress = Inr (Some info)" and "owner info = TOKEN_PROGRAM_ID"
    and "ev \<in> set (snd (prepareTransfer w toAddress amt dec))"
  shows "(\<exists>payer. secretKey w = Some payer \<and> ev = GetAssociatedTokenAddress SOLANA_USDC_MINT payer False)
         \<or> (\<exists>k. ev = GetAccountInfo k) \<or> (\<exists>k. ev = GetParsedAccountInfo k)"
proof -
  from prepareTransfer_events [OF assms(3)]
  consider "\<exists>payer. secretKey w = Some payer \<and> ev = GetAssociatedTokenAddress SOLANA_USDC_MINT payer False"
    | "\<exists>k. ev = GetAccountInfo k"
    | payer where "ev \<in> set (snd (resolveDestination w payer toAddress SOLANA_USDC_MINT))"
    by blast
  then show ?thesis
  proof cases
    case 3
    then show ?thesis
      unfolding resolveDestination_direct [OF assms(1,2)]
      by (auto split: sum.splits)
  qed blast+
qed

lemma prepareTransfer_success:
  assumes "fst (prepareTransfer w toAddress amt dec) = Inr (payer, from, dest, instrs, units)"
  shows "secretKey w = Some payer" and "validPublicKey w toAddress"
    and "validPublicKey w SOLANA_USDC_MINT"
    and "getAssociatedTokenAddress w SOLANA_USDC_MINT payer False = Inr from"
    and "\<exists>info. getAccountInfo w from = Inr (Some info)"
    and "fst (resolveDestination w payer toAddress SOLANA_USDC_MINT) = Inr (dest, instrs)"
    and "amountToSmallestUnit amt dec = Inr units"
  using assms
  unfolding prepareTransfer_def getSolanaKeypair_def PublicKey_def
  by (auto simp: lift_def throw_def ret_def fst_call bind_Inl bind_Inr
      dest!: bind_result split: option.splits if_splits prod.splits)

lemma prepareTransfer_direct_result:
  assumes "getAccountInfo w toAddress = Inr (Some info)" and "owner info = TOKEN_PROGRAM_ID"
    and "fst (prepareTransfer w toAddress amt dec) = Inr (payer, from, dest, instrs, units)"
  shows "dest = toAddress \<and> instrs = []"
  using prepareTransfer_success(6) [OF assms(3)]
  unfolding resolveDestination_direct [OF assms(1,2)]
  by (auto split: sum.splits if_splits)

text \<open>
  Claim C3. When an account exists at the recipient's address and the token program owns
  it, the resolver returns the recipient's address itself as the destination, with no
  account to create; no associated token account is derived for the recipient during the
  whole transfer (the only derivation left is the one of the sender's own account, which
  does not allow an owner off the curve); and a transaction that is submitted consists of
  the one transfer instruction to the recipient's address.
\<close>

theorem direct_addressing_priority:
  assumes "getAccountInfo w toAddress = Inr (Some info)" and "owner info = TOKEN_PROGRAM_ID"
  shows "(\<forall>mint k. GetAssociatedTokenAddress mint k True
            \<notin> set (snd (sendSolanaTransfer w toAddress amt dec)))
         \<and> (\<forall>tx. SendTransaction tx \<in> set (snd (sendSolanaTransfer w toAddress amt dec)) \<longrightarrow>
               (\<exists>from payer units. instructions tx = [Transfer from toAddress payer units]))
         \<and> (\<forall>payer mint dest instrs.
               fst (resolveDestination w payer toAddress mint) = Inr (dest, instrs) \<longrightarrow>
               dest = toAddress \<and> instrs = [])"
proof -
  have 1: "GetAssociatedTokenAddress mint k True
             \<notin> set (snd (sendSolanaTransfer w toAddress amt dec))" for mint k
  proof (cases "fst (prepareTransfer w toAddress amt dec)")
    case (Inl e)
    show ?thesis
      unfolding sendSolanaTransfer_prepare_failed(1) [OF Inl]
      using prepareTransfer_direct [OF assms] by blast
  next
    case (Inr ctx)
    obtain payer "from" dest instrs units where ctx: "ctx = (payer, from, dest, instrs, units)"
      by (cases ctx) auto
    have "GetAssociatedTokenAddress mint k True \<notin> set (snd (prepareTransfer w toAddress amt dec))"
      using prepareTransfer_direct [OF assms] by blast
    moreover have "GetAssociatedTokenAddress mint k True
        \<notin> set (snd (bind (checkBalances w payer from amt units)
                    (\<lambda>_. submitTransfer w payer from dest instrs units)))"
      using checkBalances_events [of w payer "from" amt units]
      by (auto dest!: bind_events submitTransfer_events)
    ultimately show ?thesis
      using sendSolanaTransfer_prepared(1) [OF Inr [unfolded ctx]] by simp
  qed
  have 2: "\<exists>from payer units. instructions tx = [Transfer from toAddress payer units]"
    if sent: "SendTransaction tx \<in> set (snd (sendSolanaTransfer w toAddress amt dec))" for tx
  proof (cases "fst (prepareTransfer w toAddress amt dec)")
    case (Inl e)
    with sent show ?thesis
      by (simp add: sendSolanaTransfer_prepare_failed(1) [OF Inl] no_submission_in_prepare)
  next
    case (Inr ctx)
    obtain payer "from" dest instrs units where ctx: "ctx = (payer, from, dest, instrs, units)"
      by (cases ctx) auto
    note p = Inr [unfolded ctx]
    from prepareTransfer_direct_result [OF assms p] have d: "dest = toAddress" "instrs = []"
      by simp_all
    from sent have "SendTransaction tx \<in> set (snd (bind (checkBalances w payer from amt units)
                    (\<lambda>_. submitTransfer w payer from dest instrs units)))"
      by (simp add: sendSolanaTransfer_prepared(1) [OF p] no_submission_in_prepare)
    then have "SendTransaction tx \<in> set (snd (submitTransfer w payer from dest instrs units))"
      using no_submission_in_checks by (auto dest!: bind_events)
    from submitTransfer_events [OF this] d show ?thesis by auto
  qed
  have 3: "dest = toAddress \<and> instrs = []"
    if "fst (resolveDestination w payer toAddress mint) = Inr (dest, instrs)"
    for payer mint dest instrs
    using that unfolding resolveDestination_direct [OF assms]
    by (auto split: sum.splits if_splits)
  from 1 2 3 show ?thesis by blast
qed

theorem direct_addressing_priority_witness:
  "getAccountInfo direct_world recipient_key = Inr (Some \<lparr> owner = TOKEN_PROGRAM_ID \<rparr>)
   \<and> SendTransaction
       \<lparr> instructions = [Transfer payer_ata recipient_key payer_key 200000],
         recentBlockhash = str ''blockhash'', lastValidBlockHeight = Fin 1000,
         feePayer = payer_key \<rparr>
       \<in> set (snd (sendSolanaTransfer direct_world recipient_key (str ''0.2'') (Fin 6)))
   \<and> GetAssociatedTokenAddress SOLANA_USDC_MINT recipient_key True
       \<notin> set (snd (sendSolanaTransfer direct_world recipient_key (str ''0.2'') (Fin 6)))
   \<and> GetAssociatedTokenAddress SOLANA_USDC_MINT recipient_key True
       \<in> set (snd (sendSolanaTransfer demo_world recipient_key (str ''0.2'') (Fin 6)))"
proof -
  have a: "getAccountInfo direct_world recipient_key = Inr (Some \<lparr> owner = TOKEN_PROGRAM_ID \<rparr>)"
    by (simp add: world_eval)
  have o: "owner \<lparr> owner = TOKEN_PROGRAM_ID \<rparr> = TOKEN_PROGRAM_ID"
    by simp
  from direct_addressing_priority [OF a o, of "str ''0.2''" "Fin 6"]
  have "GetAssociatedTokenAddress SOLANA_USDC_MINT recipient_key True
       \<notin> set (snd (sendSolanaTransfer direct_world recipient_key (str ''0.2'') (Fin 6)))"
    by blast
  with a show ?thesis
    by (simp add: run_direct run_demo)
qed

lemma prepareTransfer_resolution_failed:
  assumes "secretKey w = Some payer" and "validPublicKey w toAddress"
    and "validPublicKey w SOLANA_USDC_MINT"
    and "getAssociatedTokenAddress w SOLANA_USDC_MINT payer False = Inr from"
    and "getAccountInfo w from = Inr (Some fromInfo)"
    and "fst (resolveDestination w payer toAddress SOLANA_USDC_MINT) = Inl e"
  shows "fst (prepareTransfer w toAddress amt dec) = Inl e"
proof -
  obtain evs where "resolveDestination w payer toAddress SOLANA_USDC_MINT = (Inl e, evs)"
    using assms(6) by (cases "resolveDestination w payer toAddress SOLANA_USDC_MINT") auto
  with assms(1-5) show ?thesis
    by (simp add: prepareTransfer_def getSolanaKeypair_def PublicKey_def io_simps)
qed

text \<open>
  Claim C4. When the sender's side is in order (the key pair loads, the addresses parse
  and the sender's token account exists), a parsed mint of the destination account that
  differs from the mint of the transfer makes the transfer fail with the mint-mismatch
  error, before anything is submitted, in both cases in which a destination account
  already exists: the recipient's address is itself a token account, or the recipient's
  associated token account exists and the token program owns it. (The mint that the ledger
  reports is a base58 address, hence not empty.)
\<close>

theorem mint_mismatch_detected:
  assumes "secretKey w = Some payer" and "validPublicKey w toAddress"
    and "validPublicKey w SOLANA_USDC_MINT"
    and "getAssociatedTokenAddress w SOLANA_USDC_MINT payer False = Inr from"
    and "getAccountInfo w from = Inr (Some fromInfo)"
    and "m \<noteq> []" and "m \<noteq> SOLANA_USDC_MINT"
  shows "(getAccountInfo w toAddress = Inr (Some info) \<and> owner info = TOKEN_PROGRAM_ID
            \<and> getParsedMint w toAddress = Inr (Some m) \<longrightarrow>
          fst (sendSolanaTransfer w toAddress amt dec) = Inl (MintMismatch Direct)
          \<and> (\<forall>tx. SendTransaction tx \<notin> set (snd (sendSolanaTransfer w toAddress amt dec))))
         \<and> (getAccountInfo w toAddress = Inr direct
            \<and> \<not> (case direct of None \<Rightarrow> False | Some i \<Rightarrow> owner i = TOKEN_PROGRAM_ID)
            \<and> getAssociatedTokenAddress w SOLANA_USDC_MINT toAddress True = Inr ata
            \<and> getAccountInfo w ata = Inr (Some info') \<and> owner info' = TOKEN_PROGRAM_ID
            \<and> getParsedMint w ata = Inr (Some m) \<longrightarrow>
          fst (sendSolanaTransfer w toAddress amt dec) = Inl (MintMismatch Associated)
          \<and> (\<forall>tx. SendTransaction tx \<notin> set (snd (sendSolanaTransfer w toAddress amt dec))))"
proof -
  have differs: "mint_differs (Some m)"
    using assms(6,7) by (simp add: mint_differs_def)
  have failed: "fst (sendSolanaTransfer w toAddress amt dec) = Inl (MintMismatch kind)
      \<and> (\<forall>tx. SendTransaction tx \<notin> set (snd (sendSolanaTransfer w toAddress amt dec)))"
    if "fst (resolveDestination w payer toAddress SOLANA_USDC_MINT) = Inl (MintMismatch kind)"
    for kind
  proof -
    note p = prepareTransfer_resolution_failed [OF assms(1-5) that, of amt dec]
    show ?thesis
      by (simp add: sendSolanaTransfer_prepare_failed [OF p] no_submission_in_prepare)
  qed
  have "fst (resolveDestination w payer toAddress SOLANA_USDC_MINT) = Inl (MintMismatch Direct)"
    if "getAccountInfo w toAddress = Inr (Some info)" "owner info = TOKEN_PROGRAM_ID"
      "getParsedMint w toAddress = Inr (Some m)"
    using differs that(3) by (simp add: resolveDestination_direct [OF that(1,2)])
  moreover
  have "fst (resolveDestination w payer toAddress SOLANA_USDC_MINT) = Inl (MintMismatch Associated)"
    if "getAccountInfo w toAddress = Inr direct"
      "\<not> (case direct of None \<Rightarrow> False | Some i \<Rightarrow> owner i = TOKEN_PROGRAM_ID)"
      "getAssociatedTokenAddress w SOLANA_USDC_MINT toAddress True = Inr ata"
      "getAccountInfo w ata = Inr (Some info')" "owner info' = TOKEN_PROGRAM_ID"
      "getParsedMint w ata = Inr (Some m)"
    using differs that(6) by (simp add: resolveDestination_associated [OF that(1-5)])
  ultimately show ?thesis
    using failed by blast
qed

theorem mint_mismatch_detected_witness:
  "secretKey foreign_world = Some payer_key
   \<and> other_mint \<noteq> [] \<and> other_mint \<noteq> SOLANA_USDC_MINT
   \<and> getParsedMint foreign_world recipient_key = Inr (Some other_mint)
   \<and> fst (sendSolanaTransfer foreign_world recipient_key (str ''0.2'') (Fin 6))
       = Inl (MintMismatch Direct)
   \<and> getParsedMint foreign_ata_world recipient_ata = Inr (Some other_mint)
   \<and> fst (sendSolanaTransfer foreign_ata_world recipient_key (str ''0.2'') (Fin 6))
       = Inl (MintMismatch Associated)"
proof -
  note d = demo_keys_distinct
  have f: "secretKey foreign_world = Some payer_key" "validPublicKey foreign_world recipient_key"
    "validPublicKey foreign_world SOLANA_USDC_MINT"
    "getAssociatedTokenAddress foreign_world SOLANA_USDC_MINT payer_key False = Inr payer_ata"
    "getAccountInfo foreign_world payer_ata = Inr (Some \<lparr> owner = TOKEN_PROGRAM_ID \<rparr>)"
    "getAccountInfo foreign_world recipient_key = Inr (Some \<lparr> owner = TOKEN_PROGRAM_ID \<rparr>)"
    "getParsedMint foreign_world recipient_key = Inr (Some other_mint)"
    by (simp_all add: world_eval)
  have g: "secretKey foreign_ata_world = Some payer_key"
    "validPublicKey foreign_ata_world recipient_key"
    "validPublicKey foreign_ata_world SOLANA_USDC_MINT"
    "getAssociatedTokenAddress foreign_ata_world SOLANA_USDC_MINT payer_key False = Inr payer_ata"
    "getAccountInfo foreign_ata_world payer_ata = Inr (Some \<lparr> owner = TOKEN_PROGRAM_ID \<rparr>)"
    "getAccountInfo foreign_ata_world recipient_key = Inr None"
    "getAssociatedTokenAddress foreign_ata_world SOLANA_USDC_MINT recipient_key True
       = Inr recipient_ata"
    "getAccountInfo foreign_ata_world recipient_ata = Inr (Some \<lparr> owner = TOKEN_PROGRAM_ID \<rparr>)"
    "getParsedMint foreign_ata_world recipient_ata = Inr (Some other_mint)"
    using d by (simp_all add: world_eval)
  from mint_mismatch_detected [OF f(1-5) d(9,10),
      where info = "\<lparr> owner = TOKEN_PROGRAM_ID \<rparr>" and amt = "str ''0.2''" and dec = "Fin 6"]
    f(6,7)
  have 1: "fst (sendSolanaTransfer foreign_world recipient_key (str ''0.2'') (Fin 6))
       = Inl (MintMismatch Direct)"
    by simp
  from mint_mismatch_detected [OF g(1-5) d(9,10),
      where amt = "str ''0.2''" and dec = "Fin 6" and direct = None and ata = recipient_ata
        and info' = "\<lparr> owner = TOKEN_PROGRAM_ID \<rparr>"]
    g(6-9)
  have 2: "fst (sendSolanaTransfer foreign_ata_world recipient_key (str ''0.2'') (Fin 6))
       = Inl (MintMismatch Associated)"
    by simp
  from 1 2 f g d show ?thesis by simp
qed

text \<open>
  Claim C9, amended. The insufficient-balance error carries both amounts: the balance
  that the ledger reports (its \<^verbatim>\<open>uiAmountString\<close>, or \<^verbatim>\<open>"0"\<close> when there is none) and
  the amount that was requested. The insufficient-fee error is one fixed message.
\<close>

theorem balance_error_payload:
  assumes "fst (prepareTransfer w toAddress amt dec) = Inr (payer, from, dest, instrs, units)"
    and "getTokenAccountBalance w from = Inr bal"
    and "BigInt_of_string (or_else (case bal of None \<Rightarrow> [] | Some v \<Rightarrow> amount v) (str ''0''))
         = Inr tokens"
  shows "(tokens < units \<longrightarrow>
            fst (sendSolanaTransfer w toAddress amt dec)
            = Inl (InsufficientBalance
                     (or_else (case bal of None \<Rightarrow> [] | Some v \<Rightarrow> string_of (uiAmountString v))
                        (str ''0''))
                     amt))
         \<and> (units \<le> tokens \<and> getBalance w payer = Inr lamports
              \<and> BigInt_of_number lamports = Inr native \<and> native < 10000000 \<longrightarrow>
            fst (sendSolanaTransfer w toAddress amt dec) = Inl InsufficientFee)"
proof (intro conjI impI)
  note run = sendSolanaTransfer_prepared(2) [OF assms(1)]
  {
    assume low: "tokens < units"
    show "fst (sendSolanaTransfer w toAddress amt dec)
            = Inl (InsufficientBalance
                     (or_else (case bal of None \<Rightarrow> [] | Some v \<Rightarrow> string_of (uiAmountString v))
                        (str ''0''))
                     amt)"
      by (simp add: run checkBalances_short [OF assms(2,3) low] bind_Inl fst_rethrow)
  }
  {
    assume fee: "units \<le> tokens \<and> getBalance w payer = Inr lamports
              \<and> BigInt_of_number lamports = Inr native \<and> native < 10000000"
    then have cb: "checkBalances w payer from amt units =
           (Inl InsufficientFee, [GetTokenAccountBalance from, GetBalance payer])"
      using checkBalances_no_fee [OF assms(2,3)] by blast
    show "fst (sendSolanaTransfer w toAddress amt dec) = Inl InsufficientFee"
      by (simp add: run cb bind_Inl fst_rethrow)
  }
qed

theorem balance_error_payload_witness:
  "getTokenAccountBalance (world_with_tokens (str ''50000'') (str ''0.05'')) payer_ata
     = Inr (Some \<lparr> amount = str ''50000'', uiAmountString = Some (str ''0.05'') \<rparr>)
   \<and> BigInt_of_string (str ''50000'') = Inr 50000
   \<and> amountToSmallestUnit (str ''0.2'') (Fin 6) = Inr 200000
   \<and> fst (sendSolanaTransfer (world_with_tokens (str ''50000'') (str ''0.05'')) recipient_key
            (str ''0.2'') (Fin 6))
       = Inl (InsufficientBalance (str ''0.05'') (str ''0.2''))
   \<and> getBalance (world_with_lamports 10) payer_key = Inr (Fin 10)
   \<and> BigInt_of_number (Fin 10) = Inr 10
   \<and> fst (sendSolanaTransfer (world_with_lamports 10) recipient_key (str ''0.2'') (Fin 6))
       = Inl InsufficientFee"
proof -
  let ?low = "world_with_tokens (str ''50000'') (str ''0.05'')"
  let ?bal = "Some \<lparr> amount = str ''50000'', uiAmountString = Some (str ''0.05'') \<rparr>"
  have p1: "fst (prepareTransfer ?low recipient_key (str ''0.2'') (Fin 6))
     = Inr (payer_key, payer_ata, recipient_ata,
            [CreateAssociatedTokenAccount payer_key recipient_ata recipient_key SOLANA_USDC_MINT],
            200000)"
    by (simp add: prepare_demo)
  have b1: "getTokenAccountBalance ?low payer_ata = Inr ?bal"
    by (simp add: world_eval)
  have t1: "BigInt_of_string (or_else (case ?bal of None \<Rightarrow> [] | Some v \<Rightarrow> amount v) (str ''0''))
            = Inr 50000"
    by (simp add: tokens_50000 or_else_nonempty str_nonempty)
  let ?poor = "world_with_lamports 10"
  let ?bal5 = "Some \<lparr> amount = str ''5000000'', uiAmountString = Some (str ''5'') \<rparr>"
  have p2: "fst (prepareTransfer ?poor recipient_key (str ''0.2'') (Fin 6))
     = Inr (payer_key, payer_ata, recipient_ata,
            [CreateAssociatedTokenAccount payer_key recipient_ata recipient_key SOLANA_USDC_MINT],
            200000)"
    by (simp add: prepare_demo)
  have b2: "getTokenAccountBalance ?poor payer_ata = Inr ?bal5"
    by (simp add: world_eval)
  have t2: "BigInt_of_string (or_else (case ?bal5 of None \<Rightarrow> [] | Some v \<Rightarrow> amount v) (str ''0''))
            = Inr 5000000"
    by (simp add: tokens_5000000 or_else_nonempty str_nonempty)
  have l2: "getBalance ?poor payer_key = Inr (Fin 10)" "BigInt_of_number (Fin 10) = Inr 10"
    by (simp_all add: world_eval)
  from balance_error_payload [OF p1 b1 t1] balance_error_payload [OF p2 b2 t2, of "Fin 10" 10]
    b1 l2
  show ?thesis
    by (simp add: tokens_50000 units_02 string_of_def or_else_nonempty str_nonempty)
qed

text \<open>
  Claim C9, as stated: both errors carry the actual and the required amount. The
  insufficient-fee error does not: a payer with 5 lamports and a payer with 6 lamports get
  the very same error, so the error cannot tell how much there is.
\<close>

theorem fee_error_carries_no_amount:
  "getBalance (world_with_lamports 5) payer_key = Inr (Fin 5)
   \<and> getBalance (world_with_lamports 6) payer_key = Inr (Fin 6)
   \<and> fst (sendSolanaTransfer (world_with_lamports 5) recipient_key (str ''0.2'') (Fin 6))
       = Inl InsufficientFee
   \<and> fst (sendSolanaTransfer (world_with_lamports 6) recipient_key (str ''0.2'') (Fin 6))
       = Inl InsufficientFee"
  using demo_keys_distinct by (simp add: run_eval)

section \<open>Properties of the payment proof\<close>

lemma isAscii_append: "isAscii (a @ b) \<longleftrightarrow> isAscii a \<and> isAscii b"
  by (simp add: isAscii_def)

lemma isAscii_Cons: "isAscii (c # cs) \<longleftrightarrow> c < 0x80 \<and> isAscii cs"
  by (simp add: isAscii_def)

lemma isAscii_Nil: "isAscii []"
  by (simp add: isAscii_def)

lemma of_nat_ascii: "k < 128 \<Longrightarrow> (of_nat k :: 16 word) < 0x80"
  by (simp add: word_less_nat_alt unat_of_nat)

lemma hexDigit_ascii:
  assumes "n < 16"
  shows "hexDigit n < 0x80"
proof (cases "n < 10")
  case True
  then have "48 + n < 128" by simp
  from of_nat_ascii [OF this] True show ?thesis
    by (simp only: hexDigit_def if_True)
next
  case False
  from assms have "87 + n < 128" by simp
  from of_nat_ascii [OF this] False show ?thesis
    by (simp only: hexDigit_def if_False)
qed

lemma unicode_escape_ascii: "isAscii (unicode_escape c)"
proof -
  have "unat c div 4096 < 16"
    using unsigned_less [of c, where 'a = nat] by (simp add: less_mult_imp_div_less)
  then show ?thesis
    by (simp add: unicode_escape_def isAscii_Cons isAscii_Nil hexDigit_ascii)
qed

lemma escape_unit_ascii: "c < 0x80 \<Longrightarrow> isAscii (escape_unit c)"
  by (simp add: escape_unit_def isAscii_Cons isAscii_Nil unicode_escape_ascii)

lemma ascii_not_surrogate: "c < 0x80 \<Longrightarrow> \<not> isHighSurrogate c"
  by (auto simp: isHighSurrogate_def word_less_nat_alt word_le_nat_alt)

lemma escape_units_ascii: "isAscii s \<Longrightarrow> isAscii (escape_units s)"
proof (induction s rule: escape_units.induct)
  case 1
  then show ?case by (simp add: isAscii_Nil)
next
  case (2 c)
  then show ?case by (simp add: isAscii_Cons escape_unit_ascii)
next
  case (3 c d ds)
  then show ?case
    by (simp add: isAscii_Cons isAscii_append escape_unit_ascii ascii_not_surrogate)
qed

lemma QuoteJSONString_ascii: "isAscii s \<Longrightarrow> isAscii (QuoteJSONString s)"
  by (simp add: QuoteJSONString_def isAscii_append isAscii_Cons isAscii_Nil escape_units_ascii)

lemma utf8_encode_ascii: "isAscii s \<Longrightarrow> utf8_encode s = map ucast s"
  by (induction s) (simp_all add: isAscii_Cons)

lemma btoa_ascii: "isAscii s \<Longrightarrow> btoa s = Inr (base64_encode (map ucast s))"
proof -
  assume "isAscii s"
  then have "list_all (\<lambda>c. c \<le> 0xFF) s"
    unfolding isAscii_def list_all_iff
    by (auto simp: word_less_nat_alt word_le_nat_alt)
  then show ?thesis by (simp add: btoa_def)
qed

lemma or_else_ascii: "isAscii a \<Longrightarrow> isAscii b \<Longrightarrow> isAscii (or_else a b)"
  by (simp add: or_else_def)

lemma xPaymentData_ascii:
  assumes "isAscii (scheme opt)" and "isAscii (network opt)" and "isAscii sel"
    and "isAscii oid" and "isAscii amt" and "isAscii tx"
  shows "isAscii (JSON_stringify (xPaymentData opt sel oid amt tx))"
proof -
  have lit: "isAscii (str ''x402Version'')" "isAscii (str ''scheme'')" "isAscii (str ''network'')"
    "isAscii (str ''orderId'')" "isAscii (str ''payload'')" "isAscii (str ''amount'')"
    "isAscii (str ''txHash'')" "isAscii (str ''exact'')" "isAscii (str ''Solana'')"
    by (simp_all add: isAscii_def str_def)
  have one: "isAscii (bigint_toString 1)"
    by (simp add: bigint_toString_def isAscii_def)
  show ?thesis
    using assms lit one
    by (simp add: xPaymentData_def isAscii_append isAscii_Cons isAscii_Nil
        QuoteJSONString_ascii or_else_ascii)
qed

text \<open>
  Claim C6, amended. When the scheme, the network, the selected network, the order id, the
  amount and the transaction id hold ASCII characters only, the header that
  \<^verbatim>\<open>confirmPayment\<close> builds is the base64 text of the UTF-8 JSON text of
  \<^verbatim>\<open>{x402Version: 1, scheme, network, orderId, payload: {amount, txHash}}\<close>, where an
  empty scheme is replaced by \<^verbatim>\<open>"exact"\<close> and an empty network by the selected network
  or \<^verbatim>\<open>"Solana"\<close>. The header is a function of these values, so equal inputs give equal
  headers.
\<close>

theorem xPaymentHeader_ascii:
  assumes "isAscii (scheme opt)" and "isAscii (network opt)" and "isAscii sel"
    and "isAscii oid" and "isAscii amt" and "isAscii tx"
  shows "xPaymentHeader opt sel oid amt tx =
           Inr (envelope_header (or_else (scheme opt) (str ''exact''))
                  (or_else (network opt) (or_else sel (str ''Solana''))) oid amt tx)"
proof -
  let ?text = "JSON_stringify (xPaymentData opt sel oid amt tx)"
  have a: "isAscii ?text"
    using assms by (rule xPaymentData_ascii)
  have "xPaymentHeader opt sel oid amt tx = Inr (base64_encode (utf8_encode ?text))"
    by (simp add: xPaymentHeader_def btoa_ascii [OF a] utf8_encode_ascii [OF a])
  then show ?thesis
    by (simp add: envelope_header_def xPaymentData_def)
qed

lemmas json_eval = xPaymentHeader_def xPaymentData_def envelope_header_def btoa_def
  QuoteJSONString_def escape_unit_def isHighSurrogate_def isLowSurrogate_def
  bigint_toString_def base64_digit_def utf8_2_def utf8_3_def utf8_4_def or_else_def str_def

lemma header_200000:
  "xPaymentHeader demo_option (str ''solana-devnet'') (str ''order-1'') (str ''200000'') (str ''sig'')
   = Inr (str ''eyJ4NDAyVmVyc2lvbiI6MSwic2NoZW1lIjoiZXhhY3QiLCJuZXR3b3JrIjoic29sYW5hLWRldm5ldCIsIm9yZGVySWQiOiJvcmRlci0xIiwicGF5bG9hZCI6eyJhbW91bnQiOiIyMDAwMDAiLCJ0eEhhc2giOiJzaWcifX0='')"
  by (simp add: json_eval demo_option_def)

lemma header_0:
  "xPaymentHeader demo_option (str ''solana-devnet'') (str ''order-1'') (str ''0'') (str ''sig'')
   = Inr (str ''eyJ4NDAyVmVyc2lvbiI6MSwic2NoZW1lIjoiZXhhY3QiLCJuZXR3b3JrIjoic29sYW5hLWRldm5ldCIsIm9yZGVySWQiOiJvcmRlci0xIiwicGF5bG9hZCI6eyJhbW91bnQiOiIwIiwidHhIYXNoIjoic2lnIn19'')"
  by (simp add: json_eval demo_option_def)


theorem xPaymentHeader_ascii_witness:
  "isAscii (scheme demo_option) \<and> isAscii (network demo_option) \<and> isAscii (str ''solana-devnet'')
   \<and> isAscii (str ''order-1'') \<and> isAscii (str ''200000'') \<and> isAscii (str ''sig'')
   \<and> envelope_header (str ''exact'') (str ''solana-devnet'') (str ''order-1'') (str ''200000'')
        (str ''sig'')
       = str ''eyJ4NDAyVmVyc2lvbiI6MSwic2NoZW1lIjoiZXhhY3QiLCJuZXR3b3JrIjoic29sYW5hLWRldm5ldCIsIm9yZGVySWQiOiJvcmRlci0xIiwicGF5bG9hZCI6eyJhbW91bnQiOiIyMDAwMDAiLCJ0eEhhc2giOiJzaWcifX0=''"
proof -
  have a: "isAscii (scheme demo_option)" "isAscii (network demo_option)"
    "isAscii (str ''solana-devnet'')" "isAscii (str ''order-1'')" "isAscii (str ''200000'')"
    "isAscii (str ''sig'')"
    by (simp_all add: isAscii_def str_def demo_option_def)
  have e: "or_else (scheme demo_option) (str ''exact'') = str ''exact''"
    "or_else (network demo_option) (or_else (str ''solana-devnet'') (str ''Solana'')) = str ''solana-devnet''"
    by (simp_all add: demo_option_def or_else_nonempty str_nonempty)
  from xPaymentHeader_ascii [OF a] header_200000 a show ?thesis
    by (simp add: e)
qed

text \<open>
  Claim C6, as stated: for every order id the header is the base64 text of the UTF-8 JSON
  text. With an order id that is the one code unit 233 (e with an acute accent)
  \<^verbatim>\<open>btoa\<close> writes the single byte 233 where UTF-8 has the two bytes 195 and 169, so
  the two texts differ; with an order id that is the one code unit 20013 (a Chinese
  character) \<^verbatim>\<open>btoa\<close> throws and there is no header at all.
\<close>

theorem xPaymentHeader_not_utf8:
  "xPaymentHeader demo_option (str ''solana-devnet'') [0xE9] (str ''200000'') (str ''sig'')
     = Inr (str ''eyJ4NDAyVmVyc2lvbiI6MSwic2NoZW1lIjoiZXhhY3QiLCJuZXR3b3JrIjoic29sYW5hLWRldm5ldCIsIm9yZGVySWQiOiLpIiwicGF5bG9hZCI6eyJhbW91bnQiOiIyMDAwMDAiLCJ0eEhhc2giOiJzaWcifX0='')
   \<and> envelope_header (str ''exact'') (str ''solana-devnet'') [0xE9] (str ''200000'') (str ''sig'')
     = str ''eyJ4NDAyVmVyc2lvbiI6MSwic2NoZW1lIjoiZXhhY3QiLCJuZXR3b3JrIjoic29sYW5hLWRldm5ldCIsIm9yZGVySWQiOiLDqSIsInBheWxvYWQiOnsiYW1vdW50IjoiMjAwMDAwIiwidHhIYXNoIjoic2lnIn19''
   \<and> xPaymentHeader demo_option (str ''solana-devnet'') [0xE9] (str ''200000'') (str ''sig'')
     \<noteq> Inr (envelope_header (str ''exact'') (str ''solana-devnet'') [0xE9] (str ''200000'') (str ''sig''))
   \<and> xPaymentHeader demo_option (str ''solana-devnet'') [0x4E2D] (str ''200000'') (str ''sig'')
     = Inl InvalidCharacterError"
proof -
  have 1: "xPaymentHeader demo_option (str ''solana-devnet'') [0xE9] (str ''200000'') (str ''sig'')
     = Inr (str ''eyJ4NDAyVmVyc2lvbiI6MSwic2NoZW1lIjoiZXhhY3QiLCJuZXR3b3JrIjoic29sYW5hLWRldm5ldCIsIm9yZGVySWQiOiLpIiwicGF5bG9hZCI6eyJhbW91bnQiOiIyMDAwMDAiLCJ0eEhhc2giOiJzaWcifX0='')"
    by (simp add: json_eval demo_option_def)
  have 2: "envelope_header (str ''exact'') (str ''solana-devnet'') [0xE9] (str ''200000'') (str ''sig'')
     = str ''eyJ4NDAyVmVyc2lvbiI6MSwic2NoZW1lIjoiZXhhY3QiLCJuZXR3b3JrIjoic29sYW5hLWRldm5ldCIsIm9yZGVySWQiOiLDqSIsInBheWxvYWQiOnsiYW1vdW50IjoiMjAwMDAwIiwidHhIYXNoIjoic2lnIn19''"
    by (simp add: json_eval)
  have 3: "xPaymentHeader demo_option (str ''solana-devnet'') [0x4E2D] (str ''200000'') (str ''sig'')
     = Inl InvalidCharacterError"
    by (simp add: json_eval demo_option_def)
  have 4: "str ''eyJ4NDAyVmVyc2lvbiI6MSwic2NoZW1lIjoiZXhhY3QiLCJuZXR3b3JrIjoic29sYW5hLWRldm5ldCIsIm9yZGVySWQiOiLpIiwicGF5bG9hZCI6eyJhbW91bnQiOiIyMDAwMDAiLCJ0eEhhc2giOiJzaWcifX0=''
     \<noteq> str ''eyJ4NDAyVmVyc2lvbiI6MSwic2NoZW1lIjoiZXhhY3QiLCJuZXR3b3JrIjoic29sYW5hLWRldm5ldCIsIm9yZGVySWQiOiLDqSIsInBheWxvYWQiOnsiYW1vdW50IjoiMjAwMDAwIiwidHhIYXNoIjoic2lnIn19''"
    by (simp add: str_def)
  from 1 2 3 4 show ?thesis by (simp only: sum.inject) simp
qed

section \<open>Properties of the handlers\<close>

lemma demo_Number_0: "demo_Number (str ''0'') = Fin 0"
  by (simp add: demo_Number_def str_def isDigit_def decimal_value_def)

lemma awaiting_amount_eq:
  "awaiting_amount =
     \<lparr> step = select_amount,
       chatList =
         [bot_says WelcomeText,
          user_says PromotionRequestText,
          (bot_says ChooseNetworkText)
            \<lparr> options := Some [(str ''solana-devnet '' @ [0xB7] @ str '' USDC'', str ''0'')] \<rparr>,
          user_says (NetworkChoiceText (str ''solana-devnet'') (str ''USDC'')),
          (bot_says AskAmountText)
            \<lparr> options := Some [(str ''0.1 '' @ str ''USDC'', str ''0.1''),
                               (str ''0.2 '' @ str ''USDC'', str ''0.2''),
                               (str ''0.3 '' @ str ''USDC'', str ''0.3'')] \<rparr>],
       paymentOptions = [demo_option],
       selectedPaymentOption = Some demo_option,
       orderId = str ''order-1'',
       selectedAmount = [],
       selectedToken = str ''USDC'',
       selectedNetwork = str ''solana-devnet'',
       actualTransferAmount = [],
       txHash = [],
       resourceid = str ''abcdefgh'' \<rparr>"
  by (simp add: awaiting_amount_def handleSelectNetwork_def awaiting_network_def demo_world_def
      demo_Number_0 isNaN_def array_get_def demo_option_def or_else_nonempty str_nonempty Let_def)

lemma handleSelectAmount_without_selection:
  "selectedPaymentOption s = None \<or> selectedToken s = [] \<Longrightarrow>
   handleSelectAmount w s amt = (s, [])"
  by (auto simp: handleSelectAmount_def split: option.splits)

lemma array_get_out_of_range:
  "r < 0 \<or> real (length xs) \<le> r \<Longrightarrow> array_get xs (Fin r) = None"
  by (auto simp: array_get_def) linarith

lemma handleSelectNetwork_invalid:
  "paymentOptions s = [] \<or> Number_of_string w i = NaN
   \<or> array_get (paymentOptions s) (Number_of_string w i) = None \<Longrightarrow>
   handleSelectNetwork w s i = s"
  by (auto simp: handleSelectNetwork_def isNaN_def Let_def)

lemma onOptionClick_disabled:
  "step s \<noteq> select_network \<Longrightarrow> step s \<noteq> select_amount \<Longrightarrow> onOptionClick w s v = (s, [])"
  by (simp add: onOptionClick_def)

lemma units_empty: "amountToSmallestUnit [] (Fin 6) = Inr 0"
  by (simp add: codec_eval)

lemma units_0: "amountToSmallestUnit (str ''0'') (Fin 6) = Inr 0"
  by (simp add: codec_eval)

lemma toString_0: "bigint_toString 0 = str ''0''"
  by (simp add: bigint_toString_def str_def)

lemma resolve_demo: "resolveDecimals (Value (Fin 6)) (Some SOLANA_DECIMALS) = Fin 6"
  by (simp add: resolveDecimals_def isNaN_def)

lemma run_demo_0:
  "sendSolanaTransfer demo_world recipient_key (str ''0'') (Fin 6) =
   (Inr (str ''sig''),
    [GetAssociatedTokenAddress SOLANA_USDC_MINT payer_key False,
     GetAccountInfo payer_ata,
     GetAccountInfo recipient_key,
     GetAssociatedTokenAddress SOLANA_USDC_MINT recipient_key True,
     GetAccountInfo recipient_ata,
     GetTokenAccountBalance payer_ata,
     GetBalance payer_key,
     GetLatestBlockhash,
     SendTransaction
       \<lparr> instructions =
           [CreateAssociatedTokenAccount payer_key recipient_ata recipient_key SOLANA_USDC_MINT,
            Transfer payer_ata recipient_ata payer_key 0],
         recentBlockhash = str ''blockhash'', lastValidBlockHeight = Fin 1000,
         feePayer = payer_key \<rparr>,
     ConfirmTransaction (str ''sig''),
     SetTimeout FetchWalletInfo 2000])"
  using demo_keys_distinct
  by (simp add: run_eval units_0)

lemma confirm_demo:
  assumes "resourceid snap = str ''abcdefgh''" and "orderId snap = str ''order-1''"
    and "selectedNetwork snap = str ''solana-devnet''"
    and "actualTransferAmount snap = []" and "selectedAmount snap = []"
  shows "confirmPayment demo_world snap cur (str ''sig'') (Some demo_option) (Some (Fin 6)) =
     (Inr (),
      cur \<lparr> step := success,
            chatList := replace_last (chatList cur @ [bot_says ConfirmingText])
                          (bot_says ConfirmedText) \<rparr>,
      [ResourcePaymentConfirm (str ''abcdefgh'')
         (str ''eyJ4NDAyVmVyc2lvbiI6MSwic2NoZW1lIjoiZXhhY3QiLCJuZXR3b3JrIjoic29sYW5hLWRldm5ldCIsIm9yZGVySWQiOiJvcmRlci0xIiwicGF5bG9hZCI6eyJhbW91bnQiOiIwIiwidHhIYXNoIjoic2lnIn19'')])"
proof -
  have o: "or_else [] [] = ([] :: jsstring)"
    by (simp add: or_else_def)
  have w: "str ''Waiting'' \<noteq> []" "[] \<noteq> str ''Waiting for Payment''"
    by (simp_all add: str_def)
  show ?thesis
    using w
    by (simp add: confirmPayment_def assms str_nonempty o units_empty toString_0 header_0
        demo_world_def demo_gateway_def ok_response_def truthy_def string_of_def Let_def)
qed


text \<open>
  The proof amount never depends on the amount that was clicked: whatever header
  \<^verbatim>\<open>handleSelectAmount\<close> sends to the gateway is built from the amounts of the snapshot,
  and from the amount \<^verbatim>\<open>"0"\<close> when these are empty.
\<close>

lemma no_confirm_in_transfer:
  "ResourcePaymentConfirm rid h \<notin> set (snd (sendSolanaTransfer w toAddress amt dec))"
proof (cases "fst (prepareTransfer w toAddress amt dec)")
  case (Inl e)
  show ?thesis
    unfolding sendSolanaTransfer_prepare_failed(1) [OF Inl]
    by (auto dest!: prepareTransfer_events resolveDestination_events)
next
  case (Inr ctx)
  obtain payer "from" dest instrs units where ctx: "ctx = (payer, from, dest, instrs, units)"
    by (cases ctx) auto
  have "ResourcePaymentConfirm rid h \<notin> set (snd (prepareTransfer w toAddress amt dec))"
    by (auto dest!: prepareTransfer_events resolveDestination_events)
  moreover have "ResourcePaymentConfirm rid h
      \<notin> set (snd (bind (checkBalances w payer from amt units)
                  (\<lambda>_. submitTransfer w payer from dest instrs units)))"
    using checkBalances_events [of w payer "from" amt units]
    by (auto dest!: bind_events submitTransfer_events)
  ultimately show ?thesis
    using sendSolanaTransfer_prepared(1) [OF Inr [unfolded ctx]] by simp
qed

lemma confirmPayment_header:
  assumes "ResourcePaymentConfirm rid h
           \<in> set (snd (snd (confirmPayment w snap cur tx (Some opt) (Some dec))))"
  shows "\<exists>units. amountToSmallestUnit (or_else (actualTransferAmount snap) (selectedAmount snap)) dec
                   = Inr units
               \<and> xPaymentHeader opt (selectedNetwork snap) (orderId snap) (bigint_toString units) tx
                   = Inr h"
  using assms
  by (auto simp: confirmPayment_def confirm_failed_def Let_def
      split: if_splits sum.splits)

lemma handleSelectAmount_header:
  assumes "ResourcePaymentConfirm rid h \<in> set (snd (handleSelectAmount w s amt))"
  shows "\<exists>opt dec units tx.
           selectedPaymentOption s = Some opt
           \<and> amountToSmallestUnit (or_else (actualTransferAmount s) (selectedAmount s)) dec
               = Inr units
           \<and> xPaymentHeader opt (selectedNetwork s) (orderId s) (bigint_toString units) tx = Inr h"
proof (cases "selectedPaymentOption s")
  case None
  with assms show ?thesis by (simp add: handleSelectAmount_def)
next
  case (Some opt)
  let ?dec = "resolveDecimals (decimals opt) (Some SOLANA_DECIMALS)"
  let ?run = "sendSolanaTransfer w (payTo opt) amt ?dec"
  obtain r evs where run: "?run = (r, evs)" by (cases ?run) auto
  have nc: "ResourcePaymentConfirm rid h \<notin> set evs"
    using no_confirm_in_transfer [of rid h w "payTo opt" amt ?dec] run by simp
  show ?thesis
  proof (cases "selectedToken s = []")
    case True
    with assms Some show ?thesis by (simp add: handleSelectAmount_def)
  next
    case False
    show ?thesis
    proof (cases r)
      case (Inl e)
      with assms Some False run nc show ?thesis
        by (simp add: handleSelectAmount_def Let_def)
    next
      case (Inr hash)
      from assms Some False run Inr nc
      have "\<exists>cur. ResourcePaymentConfirm rid h
          \<in> set (snd (snd (confirmPayment w s cur hash (Some opt) (Some ?dec))))"
        by (auto simp: handleSelectAmount_def Let_def split: prod.splits sum.splits)
           (metis snd_conv)+
      then obtain cur where "ResourcePaymentConfirm rid h
          \<in> set (snd (snd (confirmPayment w s cur hash (Some opt) (Some ?dec))))"
        by blast
      from confirmPayment_header [OF this] Some show ?thesis by blast
    qed
  qed
qed

lemma repeat_zero_cases:
  assumes "repeat [z] dec = Inr zeros"
  shows "\<exists>n. zeros = replicate n z"
proof -
  have c: "concat (replicate n [z]) = replicate n z" for n
    by (induction n) auto
  from assms show ?thesis
    by (auto simp: repeat_def c split: int_or_inf.splits if_splits)
qed

lemma slice0_replicate: "\<exists>m. slice0 (replicate n z) dec = replicate m z"
proof (cases "ToIntegerOrInfinity dec")
  case MinusInfinity
  then have "slice0 (replicate n z) dec = replicate 0 z" by (simp add: slice0_def)
  then show ?thesis by blast
next
  case (Integer k)
  then have "slice0 (replicate n z) dec = replicate (min (nat (int n + k)) n) z
             \<or> slice0 (replicate n z) dec = replicate (min (nat k) n) z"
    by (simp add: slice0_def)
  then show ?thesis by blast
next
  case PlusInfinity
  then have "slice0 (replicate n z) dec = replicate n z" by (simp add: slice0_def)
  then show ?thesis by blast
qed

lemma string_concat_cases:
  "string_concat a b = Inr c \<Longrightarrow> c = a @ b"
  by (simp add: string_concat_def split: if_splits)

lemma units_of_empty:
  assumes "amountToSmallestUnit [] dec = Inr u"
  shows "u = 0"
proof (cases "repeat [0x30] dec")
  case (Inl e)
  with assms show ?thesis by (simp add: amountToSmallestUnit_def str_def)
next
  case (Inr zeros)
  note r = this
  from repeat_zero_cases [OF r] obtain n where n: "zeros = replicate n 0x30" by blast
  from slice0_replicate [of n "0x30" dec] obtain m
    where m: "slice0 (replicate n 0x30) dec = replicate m 0x30" by blast
  show ?thesis
  proof (cases "string_concat [] (replicate n (0x30 :: 16 word))")
    case (Inl e)
    with assms r n show ?thesis
      by (simp add: amountToSmallestUnit_def str_def strip_non_digits_def)
  next
    case (Inr padded)
    note p = this
    from string_concat_cases [OF p] have padded: "padded = replicate n 0x30" by simp
    show ?thesis
    proof (cases "string_concat [0x30] (replicate m (0x30 :: 16 word))")
      case (Inl e)
      with assms r n p padded m show ?thesis
        by (simp add: amountToSmallestUnit_def str_def strip_non_digits_def or_else_def)
    next
      case (Inr combined)
      note c = this
      from string_concat_cases [OF c] have combined: "combined = replicate (Suc m) 0x30"
        by simp
      have "amountToSmallestUnit [] dec = BigInt_of_string (replicate (Suc m) 0x30)"
        using r n p padded m c combined
        by (simp add: amountToSmallestUnit_def str_def strip_non_digits_def or_else_def)
      then have "amountToSmallestUnit [] dec = Inr 0"
        by (simp only: BigInt_of_string_zeros)
      with assms show ?thesis by simp
    qed
  qed
qed

lemma stale_proof_amount:
  assumes "selectedAmount s = []" and "actualTransferAmount s = []"
    and "ResourcePaymentConfirm rid h \<in> set (snd (handleSelectAmount w s amt))"
  shows "\<exists>opt tx. selectedPaymentOption s = Some opt
           \<and> xPaymentHeader opt (selectedNetwork s) (orderId s) (str ''0'') tx = Inr h"
proof -
  from handleSelectAmount_header [OF assms(3)] obtain opt dec units tx
    where o: "selectedPaymentOption s = Some opt"
      and u: "amountToSmallestUnit (or_else (actualTransferAmount s) (selectedAmount s)) dec
               = Inr units"
      and h: "xPaymentHeader opt (selectedNetwork s) (orderId s) (bigint_toString units) tx = Inr h"
    by blast
  from u assms(1,2) have "units = 0"
    by (simp add: or_else_def units_of_empty)
  with o h show ?thesis
    by (auto simp: toString_0)
qed

text \<open>
  Claim C1. The end-to-end scenario: one option with 6 decimals, no account at the
  recipient's address, and the user picks \<^verbatim>\<open>"0.2"\<close> in the session that the network
  selection has left. The transaction that is submitted creates the associated account
  and transfers 200000 minor units. The proof that is then sent to the gateway is the
  header for the amount \<^verbatim>\<open>"0"\<close>, not the header for \<^verbatim>\<open>"200000"\<close>:
  \<^verbatim>\<open>confirmPayment\<close> reads \<^verbatim>\<open>actualTransferAmount\<close> and \<^verbatim>\<open>selectedAmount\<close> from the
  render in which the button was clicked, where both are still empty (in general:
  \<open>stale_proof_amount\<close>).
\<close>

theorem proof_amount_is_not_transfer_amount:
  "snd (handleSelectAmount demo_world awaiting_amount (str ''0.2'')) =
     [GetAssociatedTokenAddress SOLANA_USDC_MINT payer_key False,
      GetAccountInfo payer_ata,
      GetAccountInfo recipient_key,
      GetAssociatedTokenAddress SOLANA_USDC_MINT recipient_key True,
      GetAccountInfo recipient_ata,
      GetTokenAccountBalance payer_ata,
      GetBalance payer_key,
      GetLatestBlockhash,
      SendTransaction
        \<lparr> instructions =
            [CreateAssociatedTokenAccount payer_key recipient_ata recipient_key SOLANA_USDC_MINT,
             Transfer payer_ata recipient_ata payer_key 200000],
          recentBlockhash = str ''blockhash'', lastValidBlockHeight = Fin 1000,
          feePayer = payer_key \<rparr>,
      ConfirmTransaction (str ''sig''),
      SetTimeout FetchWalletInfo 2000,
      ResourcePaymentConfirm (str ''abcdefgh'')
        (str ''eyJ4NDAyVmVyc2lvbiI6MSwic2NoZW1lIjoiZXhhY3QiLCJuZXR3b3JrIjoic29sYW5hLWRldm5ldCIsIm9yZGVySWQiOiJvcmRlci0xIiwicGF5bG9hZCI6eyJhbW91bnQiOiIwIiwidHhIYXNoIjoic2lnIn19'')]
   \<and> step (fst (handleSelectAmount demo_world awaiting_amount (str ''0.2''))) = success
   \<and> xPaymentHeader demo_option (str ''solana-devnet'') (str ''order-1'') (str ''0'') (str ''sig'')
       = Inr (str ''eyJ4NDAyVmVyc2lvbiI6MSwic2NoZW1lIjoiZXhhY3QiLCJuZXR3b3JrIjoic29sYW5hLWRldm5ldCIsIm9yZGVySWQiOiJvcmRlci0xIiwicGF5bG9hZCI6eyJhbW91bnQiOiIwIiwidHhIYXNoIjoic2lnIn19'')
   \<and> xPaymentHeader demo_option (str ''solana-devnet'') (str ''order-1'') (str ''200000'') (str ''sig'')
       = Inr (str ''eyJ4NDAyVmVyc2lvbiI6MSwic2NoZW1lIjoiZXhhY3QiLCJuZXR3b3JrIjoic29sYW5hLWRldm5ldCIsIm9yZGVySWQiOiJvcmRlci0xIiwicGF5bG9hZCI6eyJhbW91bnQiOiIyMDAwMDAiLCJ0eEhhc2giOiJzaWcifX0='')"
proof -
  let ?s = awaiting_amount
  have s: "selectedPaymentOption ?s = Some demo_option" "selectedToken ?s = str ''USDC''"
    "resourceid ?s = str ''abcdefgh''" "orderId ?s = str ''order-1''"
    "selectedNetwork ?s = str ''solana-devnet''" "actualTransferAmount ?s = []" "selectedAmount ?s = []"
    by (simp_all add: awaiting_amount_eq)
  have d: "decimals demo_option = Value (Fin 6)" "payTo demo_option = recipient_key"
    by (simp_all add: demo_option_def)
  have c: "confirmPayment demo_world ?s cur (str ''sig'') (Some demo_option) (Some (Fin 6)) =
     (Inr (),
      cur \<lparr> step := success,
            chatList := replace_last (chatList cur @ [bot_says ConfirmingText])
                          (bot_says ConfirmedText) \<rparr>,
      [ResourcePaymentConfirm (str ''abcdefgh'')
         (str ''eyJ4NDAyVmVyc2lvbiI6MSwic2NoZW1lIjoiZXhhY3QiLCJuZXR3b3JrIjoic29sYW5hLWRldm5ldCIsIm9yZGVySWQiOiJvcmRlci0xIiwicGF5bG9hZCI6eyJhbW91bnQiOiIwIiwidHhIYXNoIjoic2lnIn19'')])"
    for cur
    by (rule confirm_demo [OF s(3-7)])
  show ?thesis
    by (simp add: handleSelectAmount_def s d resolve_demo run_demo str_nonempty Let_def c
        header_0 header_200000)
qed

text \<open>
  Claim C8. What holds: an amount selection without a selected option is ignored
  (\<open>handleSelectAmount_without_selection\<close>), a network selection with an index that is
  \<open>NaN\<close> or outside the stored options is ignored (\<open>handleSelectNetwork_invalid\<close>,
  \<open>array_get_out_of_range\<close>), and outside the two selection steps the buttons are
  disabled (\<open>onOptionClick_disabled\<close>). What does not: in the step \<^verbatim>\<open>select_amount\<close> the buttons of the earlier network message are
  still enabled, and the click handler takes their value, the index \<^verbatim>\<open>"0"\<close>, for an
  amount. In the session that the network selection has left, a click on the network
  button starts a transfer of 0 minor units, which is submitted, and the session ends in
  \<^verbatim>\<open>success\<close>; \<^verbatim>\<open>handleSelectNetwork\<close> itself, called in that step, would add two chat
  messages.
\<close>

theorem network_button_during_amount_selection:
  "step awaiting_amount = select_amount
   \<and> map_option (map snd) (options (chatList awaiting_amount ! 2)) = Some [str ''0'']
   \<and> snd (onOptionClick demo_world awaiting_amount (str ''0'')) =
     [GetAssociatedTokenAddress SOLANA_USDC_MINT payer_key False,
      GetAccountInfo payer_ata,
      GetAccountInfo recipient_key,
      GetAssociatedTokenAddress SOLANA_USDC_MINT recipient_key True,
      GetAccountInfo recipient_ata,
      GetTokenAccountBalance payer_ata,
      GetBalance payer_key,
      GetLatestBlockhash,
      SendTransaction
        \<lparr> instructions =
            [CreateAssociatedTokenAccount payer_key recipient_ata recipient_key SOLANA_USDC_MINT,
             Transfer payer_ata recipient_ata payer_key 0],
          recentBlockhash = str ''blockhash'', lastValidBlockHeight = Fin 1000,
          feePayer = payer_key \<rparr>,
      ConfirmTransaction (str ''sig''),
      SetTimeout FetchWalletInfo 2000,
      ResourcePaymentConfirm (str ''abcdefgh'')
        (str ''eyJ4NDAyVmVyc2lvbiI6MSwic2NoZW1lIjoiZXhhY3QiLCJuZXR3b3JrIjoic29sYW5hLWRldm5ldCIsIm9yZGVySWQiOiJvcmRlci0xIiwicGF5bG9hZCI6eyJhbW91bnQiOiIwIiwidHhIYXNoIjoic2lnIn19'')]
   \<and> step (fst (onOptionClick demo_world awaiting_amount (str ''0''))) = success
   \<and> selectedAmount (fst (onOptionClick demo_world awaiting_amount (str ''0''))) = str ''0''
   \<and> length (chatList awaiting_amount) = 5
   \<and> length (chatList (handleSelectNetwork demo_world awaiting_amount (str ''0''))) = 7"
proof -
  let ?s = awaiting_amount
  have s: "selectedPaymentOption ?s = Some demo_option" "selectedToken ?s = str ''USDC''"
    "resourceid ?s = str ''abcdefgh''" "orderId ?s = str ''order-1''"
    "selectedNetwork ?s = str ''solana-devnet''" "actualTransferAmount ?s = []" "selectedAmount ?s = []"
    "step ?s = select_amount" "paymentOptions ?s = [demo_option]" "length (chatList ?s) = 5"
    "map_option (map snd) (options (chatList ?s ! 2)) = Some [str ''0'']"
    by (simp_all add: awaiting_amount_eq bot_says_def)
  have d: "decimals demo_option = Value (Fin 6)" "payTo demo_option = recipient_key"
    by (simp_all add: demo_option_def)
  have c: "confirmPayment demo_world ?s cur (str ''sig'') (Some demo_option) (Some (Fin 6)) =
     (Inr (),
      cur \<lparr> step := success,
            chatList := replace_last (chatList cur @ [bot_says ConfirmingText])
                          (bot_says ConfirmedText) \<rparr>,
      [ResourcePaymentConfirm (str ''abcdefgh'')
         (str ''eyJ4NDAyVmVyc2lvbiI6MSwic2NoZW1lIjoiZXhhY3QiLCJuZXR3b3JrIjoic29sYW5hLWRldm5ldCIsIm9yZGVySWQiOiJvcmRlci0xIiwicGF5bG9hZCI6eyJhbW91bnQiOiIwIiwidHhIYXNoIjoic2lnIn19'')])"
    for cur
    by (rule confirm_demo [OF s(3-7)])
  have click: "onOptionClick demo_world ?s (str ''0'') = handleSelectAmount demo_world ?s (str ''0'')"
    by (simp add: onOptionClick_def s)
  have n: "length (chatList (handleSelectNetwork demo_world ?s (str ''0''))) = 7"
    by (simp add: handleSelectNetwork_def s demo_world_def demo_Number_0 isNaN_def array_get_def
        Let_def)
  show ?thesis
    unfolding click
    by (simp add: handleSelectAmount_def s d resolve_demo run_demo_0 str_nonempty Let_def c n)
qed

end
